theory Spec2Isabelle
  imports Main "HOL-Library.Log_Nat" "HOL-Library.AList"
begin

section \<open>Python values used by the case catalog\<close>

text \<open>
  The module \<^verbatim>\<open>vectordb_bench/backend/cases.py\<close> computes with Python numbers:
  \<^verbatim>\<open>float | int\<close> fields, the product \<^verbatim>\<open>filter_rate * size\<close>, the builtin
  \<^verbatim>\<open>round\<close> and the decimal rendering of an \<^verbatim>\<open>int\<close> inside an f-string.
  Exceptions are values: a computation returns \<open>py_error + 'a\<close>, with \<open>Inl\<close> the
  exception that Python raises.
\<close>

datatype py_error = ValueError string | OverflowError string

subsection \<open>Floats: IEEE 754 binary64, round to nearest, ties to even\<close>

text \<open>
  A finite float is the rational number it denotes (the two zeros are identified: no
  operation below tells them apart). \<open>fl64 q\<close> is the binary64 value nearest to the
  rational \<open>q\<close>: 53 significant bits, subnormals below \<open>2 powi - 1022\<close>, an infinity
  when the rounded magnitude reaches \<open>2 powi 1024\<close>.
\<close>

datatype pyfloat = Finite rat | PosInf | NegInf | NaN

definition round_half_even :: "rat \<Rightarrow> int" where
  "round_half_even q =
     (let f = \<lfloor>q\<rfloor>; d = q - of_int f
      in if d < 1 / 2 then f
         else if 1 / 2 < d then f + 1
         else if even f then f else f + 1)"

text \<open>For \<open>0 < q\<close>, \<open>ilog2 q\<close> is the exponent \<open>e\<close> with \<open>2 powi e \<le> q < 2 powi (e + 1)\<close>.\<close>

definition ilog2 :: "rat \<Rightarrow> int" where
  "ilog2 q =
     (let (a, b) = quotient_of q; e = bitlen a - bitlen b
      in if 2 powi e \<le> q then e else e - 1)"

definition fl64 :: "rat \<Rightarrow> pyfloat" where
  "fl64 q =
     (if q = 0 then Finite 0
      else let e = max (ilog2 \<bar>q\<bar>) (- 1022);
               u = 2 powi (e - 52);
               r = of_int (round_half_even (q / u)) * u
           in if 2 powi 1024 \<le> \<bar>r\<bar> then (if 0 < q then PosInf else NegInf)
              else Finite r)"

text \<open>Float multiplication \<^verbatim>\<open>x * y\<close>.\<close>

fun float_mul :: "pyfloat \<Rightarrow> pyfloat \<Rightarrow> pyfloat" where
  "float_mul NaN y = NaN"
| "float_mul x NaN = NaN"
| "float_mul (Finite a) (Finite b) = fl64 (a * b)"
| "float_mul (Finite a) PosInf = (if a = 0 then NaN else if 0 < a then PosInf else NegInf)"
| "float_mul (Finite a) NegInf = (if a = 0 then NaN else if 0 < a then NegInf else PosInf)"
| "float_mul PosInf (Finite b) = (if b = 0 then NaN else if 0 < b then PosInf else NegInf)"
| "float_mul NegInf (Finite b) = (if b = 0 then NaN else if 0 < b then NegInf else PosInf)"
| "float_mul PosInf PosInf = PosInf"
| "float_mul PosInf NegInf = NegInf"
| "float_mul NegInf PosInf = NegInf"
| "float_mul NegInf NegInf = PosInf"

text \<open>
  The conversion of an \<^verbatim>\<open>int\<close> operand of a float operation: correctly rounded,
  \<^verbatim>\<open>OverflowError\<close> when the integer is beyond the finite floats.
\<close>

definition float_of_int :: "int \<Rightarrow> py_error + pyfloat" where
  "float_of_int n =
     (case fl64 (of_int n) of
        Finite r \<Rightarrow> Inr (Finite r)
      | _ \<Rightarrow> Inl (OverflowError ''int too large to convert to float''))"

subsection \<open>Numbers: \<^verbatim>\<open>float | int\<close>\<close>

datatype number = PyInt int | PyFloat pyfloat

text \<open>\<^verbatim>\<open>x * n\<close> for a number \<open>x\<close> and an \<^verbatim>\<open>int\<close> \<open>n\<close>.\<close>

fun py_mul :: "number \<Rightarrow> int \<Rightarrow> py_error + number" where
  "py_mul (PyInt i) n = Inr (PyInt (i * n))"
| "py_mul (PyFloat x) n =
     (case float_of_int n of
        Inl e \<Rightarrow> Inl e
      | Inr y \<Rightarrow> Inr (PyFloat (float_mul x y)))"

text \<open>The builtin \<^verbatim>\<open>round(x)\<close> with one argument: an \<^verbatim>\<open>int\<close>, ties to even.\<close>

fun py_round :: "number \<Rightarrow> py_error + int" where
  "py_round (PyInt i) = Inr i"
| "py_round (PyFloat (Finite q)) = Inr (round_half_even q)"
| "py_round (PyFloat NaN) = Inl (ValueError ''cannot convert float NaN to integer'')"
| "py_round (PyFloat PosInf) = Inl (OverflowError ''cannot convert float infinity to integer'')"
| "py_round (PyFloat NegInf) = Inl (OverflowError ''cannot convert float infinity to integer'')"

subsection \<open>The decimal text of an \<^verbatim>\<open>int\<close>\<close>

definition digit_char :: "nat \<Rightarrow> char" where
  "digit_char d = ''0123456789'' ! d"

fun str_nat :: "nat \<Rightarrow> string" where
  "str_nat n = (if n < 10 then [digit_char n] else str_nat (n div 10) @ [digit_char (n mod 10)])"

text \<open>\<^verbatim>\<open>str(i)\<close>, which is also what \<^verbatim>\<open>f"{i}"\<close> inserts.\<close>

definition str_int :: "int \<Rightarrow> string" where
  "str_int i = (if i < 0 then CHR ''-'' # str_nat (nat (- i)) else str_nat (nat i))"

section \<open>External collaborators\<close>

text \<open>
  Modelled from the spec: the module \<^verbatim>\<open>vectordb_bench/backend/dataset.py\<close>, which
  declares \<^verbatim>\<open>Dataset\<close> and \<^verbatim>\<open>DatasetManager\<close>, is not among the sources. Per the spec
  a dataset reference is a named dataset at a requested cardinality that exposes a
  queryable record count, read as \<^verbatim>\<open>dataset.data.size\<close>. Only the datasets that the
  catalog names are listed.
\<close>

datatype Dataset = GIST | SIFT | COHERE | LAION | OPENAI

record BaseDataset =
  source :: Dataset
  size_n :: int

record DatasetManager =
  data :: BaseDataset

text \<open>
  Modelled from the spec: \<^verbatim>\<open>Dataset.X.manager(n)\<close>, of the same missing module, is the
  reference to the dataset \<open>X\<close> at the requested cardinality \<open>n\<close>, and \<open>n\<close> is the
  record count that it reports.
\<close>

definition manager :: "Dataset \<Rightarrow> int \<Rightarrow> DatasetManager" where
  "manager d n = \<lparr>data = \<lparr>source = d, size_n = n\<rparr>\<rparr>"

text \<open>
  Modelled from the spec: the object \<^verbatim>\<open>vectordb_bench.config\<close> is not among the
  sources. Per the spec its members are timeout constants in seconds, hence numbers;
  the catalog is parameterised by them.
\<close>

record config =
  CAPACITY_TIMEOUT_IN_SECONDS :: number
  LOAD_TIMEOUT_DEFAULT :: number
  LOAD_TIMEOUT_768D_1M :: number
  LOAD_TIMEOUT_768D_10M :: number
  LOAD_TIMEOUT_768D_100M :: number
  LOAD_TIMEOUT_1536D_500K :: number
  LOAD_TIMEOUT_1536D_5M :: number
  OPTIMIZE_TIMEOUT_DEFAULT :: number
  OPTIMIZE_TIMEOUT_768D_1M :: number
  OPTIMIZE_TIMEOUT_768D_10M :: number
  OPTIMIZE_TIMEOUT_768D_100M :: number
  OPTIMIZE_TIMEOUT_1536D_500K :: number
  OPTIMIZE_TIMEOUT_1536D_5M :: number

section \<open>Case identifiers, labels and descriptors\<close>

datatype CaseType =
    CapacityDim128
  | CapacityDim960
  | Performance768D100M
  | Performance768D10M
  | Performance768D1M
  | Performance768D10M1P
  | Performance768D1M1P
  | Performance768D10M99P
  | Performance768D1M99P
  | Performance1536D500K
  | Performance1536D5M
  | Performance1536D500K1P
  | Performance1536D5M1P
  | Performance1536D500K99P
  | Performance1536D5M99P
  | Performance960D100K90P
  | Performance128D500K90P
  | Performance960D100K80P
  | Performance128D500K80P
  | Performance960D100K70P
  | Performance128D500K70P
  | Performance960D100K60P
  | Performance128D500K60P
  | Performance960D100K50P
  | Performance128D500K50P
  | Performance960D100K40P
  | Performance128D500K40P
  | Performance960D100K30P
  | Performance128D500K30P
  | Performance960D100K20P
  | Performance128D500K20P
  | Performance960D100K10P
  | Performance128D500K10P
  | Custom

text \<open>The integer value of each member of the enumeration.\<close>

fun CaseType_value :: "CaseType \<Rightarrow> int" where
  "CaseType_value CaseType.CapacityDim128 = 1"
| "CaseType_value CaseType.CapacityDim960 = 2"
| "CaseType_value CaseType.Performance768D100M = 3"
| "CaseType_value CaseType.Performance768D10M = 4"
| "CaseType_value CaseType.Performance768D1M = 5"
| "CaseType_value CaseType.Performance768D10M1P = 6"
| "CaseType_value CaseType.Performance768D1M1P = 7"
| "CaseType_value CaseType.Performance768D10M99P = 8"
| "CaseType_value CaseType.Performance768D1M99P = 9"
| "CaseType_value CaseType.Performance1536D500K = 10"
| "CaseType_value CaseType.Performance1536D5M = 11"
| "CaseType_value CaseType.Performance1536D500K1P = 12"
| "CaseType_value CaseType.Performance1536D5M1P = 13"
| "CaseType_value CaseType.Performance1536D500K99P = 14"
| "CaseType_value CaseType.Performance1536D5M99P = 15"
| "CaseType_value CaseType.Performance960D100K90P = 16"
| "CaseType_value CaseType.Performance128D500K90P = 17"
| "CaseType_value CaseType.Performance960D100K80P = 18"
| "CaseType_value CaseType.Performance128D500K80P = 19"
| "CaseType_value CaseType.Performance960D100K70P = 20"
| "CaseType_value CaseType.Performance128D500K70P = 21"
| "CaseType_value CaseType.Performance960D100K60P = 22"
| "CaseType_value CaseType.Performance128D500K60P = 23"
| "CaseType_value CaseType.Performance960D100K50P = 24"
| "CaseType_value CaseType.Performance128D500K50P = 25"
| "CaseType_value CaseType.Performance960D100K40P = 26"
| "CaseType_value CaseType.Performance128D500K40P = 27"
| "CaseType_value CaseType.Performance960D100K30P = 28"
| "CaseType_value CaseType.Performance128D500K30P = 29"
| "CaseType_value CaseType.Performance960D100K20P = 30"
| "CaseType_value CaseType.Performance128D500K20P = 31"
| "CaseType_value CaseType.Performance960D100K10P = 32"
| "CaseType_value CaseType.Performance128D500K10P = 33"
| "CaseType_value CaseType.Custom = 100"

datatype CaseLabel = Load | Performance

record Case =
  case_id :: CaseType
  label :: CaseLabel
  name :: string
  description :: string
  dataset :: DatasetManager
  load_timeout :: number
  optimize_timeout :: "number option"
  filter_rate :: "number option"

text \<open>
  The dictionary that \<^verbatim>\<open>Case.filters\<close> returns has the two keys \<^verbatim>\<open>"metadata"\<close>
  and \<^verbatim>\<open>"id"\<close>.
\<close>

record filters_dict =
  metadata :: string
  id_val :: int

text \<open>The expression \<^verbatim>\<open>round(self.filter_rate * self.dataset.data.size)\<close>.\<close>

definition py_round_mul :: "number \<Rightarrow> int \<Rightarrow> py_error + int" where
  "py_round_mul r n = (case py_mul r n of Inl e \<Rightarrow> Inl e | Inr x \<Rightarrow> py_round x)"

text \<open>
  The property \<^verbatim>\<open>Case.filters\<close>: \<open>Inr None\<close> is the return value \<^verbatim>\<open>None\<close>,
  \<open>Inl\<close> an exception of the arithmetic.
\<close>

definition filters :: "Case \<Rightarrow> py_error + filters_dict option" where
  "filters self =
     (case filter_rate self of
        Some r \<Rightarrow>
          (case py_round_mul r (size_n (data (dataset self))) of
             Inl e \<Rightarrow> Inl e
           | Inr ID \<Rightarrow> Inr (Some \<lparr>metadata = ''>='' @ str_int ID, id_val = ID\<rparr>))
      | None \<Rightarrow> Inr None)"

section \<open>Family defaults\<close>

text \<open>
  \<^verbatim>\<open>CapacityCase\<close> and \<^verbatim>\<open>PerformanceCase\<close> give defaults to \<^verbatim>\<open>label\<close>,
  \<^verbatim>\<open>filter_rate\<close>, \<^verbatim>\<open>load_timeout\<close> and \<^verbatim>\<open>optimize_timeout\<close>; the four fields
  without a default are the arguments.
\<close>

definition CapacityCase ::
  "config \<Rightarrow> CaseType \<Rightarrow> string \<Rightarrow> string \<Rightarrow> DatasetManager \<Rightarrow> Case" where
  "CapacityCase cfg cid nm descr ds =
     \<lparr>case_id = cid, label = Load, name = nm, description = descr, dataset = ds,
      load_timeout = CAPACITY_TIMEOUT_IN_SECONDS cfg,
      optimize_timeout = None,
      filter_rate = None\<rparr>"

definition PerformanceCase ::
  "config \<Rightarrow> CaseType \<Rightarrow> string \<Rightarrow> string \<Rightarrow> DatasetManager \<Rightarrow> Case" where
  "PerformanceCase cfg cid nm descr ds =
     \<lparr>case_id = cid, label = Performance, name = nm, description = descr, dataset = ds,
      load_timeout = LOAD_TIMEOUT_DEFAULT cfg,
      optimize_timeout = Some (OPTIMIZE_TIMEOUT_DEFAULT cfg),
      filter_rate = None\<rparr>"

section \<open>The concrete catalog\<close>

text \<open>
  Each concrete class gives every field a default, so its constructor takes no
  argument: a function of \<open>unit\<close>. A float literal denotes the nearest binary64 value.
\<close>

definition CapacityDim960 :: "config \<Rightarrow> unit \<Rightarrow> Case" where
  "CapacityDim960 cfg u =
     (CapacityCase cfg CaseType.CapacityDim960
       ''Capacity Test (960 Dim Repeated)''
       ''This case tests the vector database's loading capacity by repeatedly inserting large-dimension vectors (GIST 100K vectors, <b>960 dimensions</b>) until it is fully loaded.\<newline>Number of inserted vectors will be reported.''
       (manager GIST 100000))"

definition CapacityDim128 :: "config \<Rightarrow> unit \<Rightarrow> Case" where
  "CapacityDim128 cfg u =
     (CapacityCase cfg CaseType.CapacityDim128
       ''Capacity Test (128 Dim Repeated)''
       ''This case tests the vector database's loading capacity by repeatedly inserting small-dimension vectors (SIFT 100K vectors, <b>128 dimensions</b>) until it is fully loaded.\<newline>Number of inserted vectors will be reported.''
       (manager SIFT 500000))"

definition Performance768D10M :: "config \<Rightarrow> unit \<Rightarrow> Case" where
  "Performance768D10M cfg u =
     (PerformanceCase cfg CaseType.Performance768D10M
       ''Search Performance Test (10M Dataset, 768 Dim)''
       ''This case tests the search performance of a vector database with a large dataset (<b>Cohere 10M vectors</b>, 768 dimensions) at varying parallel levels.\<newline>Results will show index building time, recall, and maximum QPS.''
       (manager COHERE 10000000))
     \<lparr>load_timeout := LOAD_TIMEOUT_768D_10M cfg,
      optimize_timeout := Some (OPTIMIZE_TIMEOUT_768D_10M cfg)\<rparr>"

definition Performance768D1M :: "config \<Rightarrow> unit \<Rightarrow> Case" where
  "Performance768D1M cfg u =
     (PerformanceCase cfg CaseType.Performance768D1M
       ''Search Performance Test (1M Dataset, 768 Dim)''
       ''This case tests the search performance of a vector database with a medium dataset (<b>Cohere 1M vectors</b>, 768 dimensions) at varying parallel levels.\<newline>Results will show index building time, recall, and maximum QPS.''
       (manager COHERE 1000000))
     \<lparr>load_timeout := LOAD_TIMEOUT_768D_1M cfg,
      optimize_timeout := Some (OPTIMIZE_TIMEOUT_768D_1M cfg)\<rparr>"

definition Performance768D10M1P :: "config \<Rightarrow> unit \<Rightarrow> Case" where
  "Performance768D10M1P cfg u =
     (PerformanceCase cfg CaseType.Performance768D10M1P
       ''Filtering Search Performance Test (10M Dataset, 768 Dim, Filter 1%)''
       ''This case tests the search performance of a vector database with a large dataset (<b>Cohere 10M vectors</b>, 768 dimensions) under a low filtering rate (<b>1% vectors</b>), at varying parallel levels.\<newline>Results will show index building time, recall, and maximum QPS.''
       (manager COHERE 10000000))
     \<lparr>filter_rate := Some (PyFloat (fl64 (1 / 100))),
      load_timeout := LOAD_TIMEOUT_768D_10M cfg,
      optimize_timeout := Some (OPTIMIZE_TIMEOUT_768D_10M cfg)\<rparr>"

definition Performance768D1M1P :: "config \<Rightarrow> unit \<Rightarrow> Case" where
  "Performance768D1M1P cfg u =
     (PerformanceCase cfg CaseType.Performance768D1M1P
       ''Filtering Search Performance Test (1M Dataset, 768 Dim, Filter 1%)''
       ''This case tests the search performance of a vector database with a medium dataset (<b>Cohere 1M vectors</b>, 768 dimensions) under a low filtering rate (<b>1% vectors</b>), at varying parallel levels.\<newline>Results will show index building time, recall, and maximum QPS.''
       (manager COHERE 1000000))
     \<lparr>filter_rate := Some (PyFloat (fl64 (1 / 100))),
      load_timeout := LOAD_TIMEOUT_768D_1M cfg,
      optimize_timeout := Some (OPTIMIZE_TIMEOUT_768D_1M cfg)\<rparr>"

definition Performance768D10M99P :: "config \<Rightarrow> unit \<Rightarrow> Case" where
  "Performance768D10M99P cfg u =
     (PerformanceCase cfg CaseType.Performance768D10M99P
       ''Filtering Search Performance Test (10M Dataset, 768 Dim, Filter 99%)''
       ''This case tests the search performance of a vector database with a large dataset (<b>Cohere 10M vectors</b>, 768 dimensions) under a high filtering rate (<b>99% vectors</b>), at varying parallel levels.\<newline>Results will show index building time, recall, and maximum QPS.''
       (manager COHERE 10000000))
     \<lparr>filter_rate := Some (PyFloat (fl64 (99 / 100))),
      load_timeout := LOAD_TIMEOUT_768D_10M cfg,
      optimize_timeout := Some (OPTIMIZE_TIMEOUT_768D_10M cfg)\<rparr>"

definition Performance768D1M99P :: "config \<Rightarrow> unit \<Rightarrow> Case" where
  "Performance768D1M99P cfg u =
     (PerformanceCase cfg CaseType.Performance768D1M99P
       ''Filtering Search Performance Test (1M Dataset, 768 Dim, Filter 99%)''
       ''This case tests the search performance of a vector database with a medium dataset (<b>Cohere 1M vectors</b>, 768 dimensions) under a high filtering rate (<b>99% vectors</b>), at varying parallel levels.\<newline>Results will show index building time, recall, and maximum QPS.''
       (manager COHERE 1000000))
     \<lparr>filter_rate := Some (PyFloat (fl64 (99 / 100))),
      load_timeout := LOAD_TIMEOUT_768D_1M cfg,
      optimize_timeout := Some (OPTIMIZE_TIMEOUT_768D_1M cfg)\<rparr>"

definition Performance768D100M :: "config \<Rightarrow> unit \<Rightarrow> Case" where
  "Performance768D100M cfg u =
     (PerformanceCase cfg CaseType.Performance768D100M
       ''Search Performance Test (100M Dataset, 768 Dim)''
       ''This case tests the search performance of a vector database with a large 100M dataset (<b>LAION 100M vectors</b>, 768 dimensions), at varying parallel levels.\<newline>Results will show index building time, recall, and maximum QPS.''
       (manager LAION 100000000))
     \<lparr>filter_rate := None,
      load_timeout := LOAD_TIMEOUT_768D_100M cfg,
      optimize_timeout := Some (OPTIMIZE_TIMEOUT_768D_100M cfg)\<rparr>"

definition Performance1536D500K :: "config \<Rightarrow> unit \<Rightarrow> Case" where
  "Performance1536D500K cfg u =
     (PerformanceCase cfg CaseType.Performance1536D500K
       ''Search Performance Test (500K Dataset, 1536 Dim)''
       ''This case tests the search performance of a vector database with a medium 500K dataset (<b>OpenAI 500K vectors</b>, 1536 dimensions), at varying parallel levels.\<newline>Results will show index building time, recall, and maximum QPS.''
       (manager OPENAI 500000))
     \<lparr>filter_rate := None,
      load_timeout := LOAD_TIMEOUT_1536D_500K cfg,
      optimize_timeout := Some (OPTIMIZE_TIMEOUT_1536D_500K cfg)\<rparr>"

definition Performance1536D5M :: "config \<Rightarrow> unit \<Rightarrow> Case" where
  "Performance1536D5M cfg u =
     (PerformanceCase cfg CaseType.Performance1536D5M
       ''Search Performance Test (5M Dataset, 1536 Dim)''
       ''This case tests the search performance of a vector database with a medium 5M dataset (<b>OpenAI 5M vectors</b>, 1536 dimensions), at varying parallel levels.\<newline>Results will show index building time, recall, and maximum QPS.''
       (manager OPENAI 5000000))
     \<lparr>filter_rate := None,
      load_timeout := LOAD_TIMEOUT_1536D_5M cfg,
      optimize_timeout := Some (OPTIMIZE_TIMEOUT_1536D_5M cfg)\<rparr>"

definition Performance1536D500K1P :: "config \<Rightarrow> unit \<Rightarrow> Case" where
  "Performance1536D500K1P cfg u =
     (PerformanceCase cfg CaseType.Performance1536D500K1P
       ''Filtering Search Performance Test (500K Dataset, 1536 Dim, Filter 1%)''
       ''This case tests the search performance of a vector database with a large dataset (<b>OpenAI 500K vectors</b>, 1536 dimensions) under a low filtering rate (<b>1% vectors</b>), at varying parallel levels.\<newline>Results will show index building time, recall, and maximum QPS.''
       (manager OPENAI 500000))
     \<lparr>filter_rate := Some (PyFloat (fl64 (1 / 100))),
      load_timeout := LOAD_TIMEOUT_1536D_500K cfg,
      optimize_timeout := Some (OPTIMIZE_TIMEOUT_1536D_500K cfg)\<rparr>"

definition Performance1536D5M1P :: "config \<Rightarrow> unit \<Rightarrow> Case" where
  "Performance1536D5M1P cfg u =
     (PerformanceCase cfg CaseType.Performance1536D5M1P
       ''Filtering Search Performance Test (5M Dataset, 1536 Dim, Filter 1%)''
       ''This case tests the search performance of a vector database with a large dataset (<b>OpenAI 5M vectors</b>, 1536 dimensions) under a low filtering rate (<b>1% vectors</b>), at varying parallel levels.\<newline>Results will show index building time, recall, and maximum QPS.''
       (manager OPENAI 5000000))
     \<lparr>filter_rate := Some (PyFloat (fl64 (1 / 100))),
      load_timeout := LOAD_TIMEOUT_1536D_5M cfg,
      optimize_timeout := Some (OPTIMIZE_TIMEOUT_1536D_5M cfg)\<rparr>"

definition Performance1536D500K99P :: "config \<Rightarrow> unit \<Rightarrow> Case" where
  "Performance1536D500K99P cfg u =
     (PerformanceCase cfg CaseType.Performance1536D500K99P
       ''Filtering Search Performance Test (500K Dataset, 1536 Dim, Filter 99%)''
       ''This case tests the search performance of a vector database with a medium dataset (<b>OpenAI 500K vectors</b>, 1536 dimensions) under a high filtering rate (<b>99% vectors</b>), at varying parallel levels.\<newline>Results will show index building time, recall, and maximum QPS.''
       (manager OPENAI 500000))
     \<lparr>filter_rate := Some (PyFloat (fl64 (99 / 100))),
      load_timeout := LOAD_TIMEOUT_1536D_500K cfg,
      optimize_timeout := Some (OPTIMIZE_TIMEOUT_1536D_500K cfg)\<rparr>"

definition Performance1536D5M99P :: "config \<Rightarrow> unit \<Rightarrow> Case" where
  "Performance1536D5M99P cfg u =
     (PerformanceCase cfg CaseType.Performance1536D5M99P
       ''Filtering Search Performance Test (5M Dataset, 1536 Dim, Filter 99%)''
       ''This case tests the search performance of a vector database with a medium dataset (<b>OpenAI 5M vectors</b>, 1536 dimensions) under a high filtering rate (<b>99% vectors</b>), at varying parallel levels.\<newline>Results will show index building time, recall, and maximum QPS.''
       (manager OPENAI 5000000))
     \<lparr>filter_rate := Some (PyFloat (fl64 (99 / 100))),
      load_timeout := LOAD_TIMEOUT_1536D_5M cfg,
      optimize_timeout := Some (OPTIMIZE_TIMEOUT_1536D_5M cfg)\<rparr>"

definition Performance960D100K90P :: "config \<Rightarrow> unit \<Rightarrow> Case" where
  "Performance960D100K90P cfg u =
     (PerformanceCase cfg CaseType.Performance960D100K90P
       ''Filtering Search Performance Test (100K Dataset, 960 Dim, Filter 90%)''
       ''This case tests the search performance of a vector database with a small dataset (<b>Gist 100k vectors</b>, 960 dimensions) under a filtering rate (<b>90% vectors</b>), at varying parallel levels.\<newline>Results will show index building time, recall, and maximum QPS.''
       (manager GIST 100000))
     \<lparr>filter_rate := Some (PyFloat (fl64 (90 / 100))),
      load_timeout := LOAD_TIMEOUT_DEFAULT cfg,
      optimize_timeout := Some (OPTIMIZE_TIMEOUT_DEFAULT cfg)\<rparr>"

definition Performance128D500K90P :: "config \<Rightarrow> unit \<Rightarrow> Case" where
  "Performance128D500K90P cfg u =
     (PerformanceCase cfg CaseType.Performance128D500K90P
       ''Filtering Search Performance Test (500K Dataset, 128 Dim, Filter 90%)''
       ''This case tests the search performance of a vector database with a small dataset (<b>Sift 500k vectors</b>, 128 dimensions) under a filtering rate (<b>90% vectors</b>), at varying parallel levels.\<newline>Results will show index building time, recall, and maximum QPS.''
       (manager SIFT 500000))
     \<lparr>filter_rate := Some (PyFloat (fl64 (90 / 100))),
      load_timeout := LOAD_TIMEOUT_DEFAULT cfg,
      optimize_timeout := Some (OPTIMIZE_TIMEOUT_DEFAULT cfg)\<rparr>"

definition Performance960D100K80P :: "config \<Rightarrow> unit \<Rightarrow> Case" where
  "Performance960D100K80P cfg u =
     (PerformanceCase cfg CaseType.Performance960D100K80P
       ''Filtering Search Performance Test (100K Dataset, 960 Dim, Filter 80%)''
       ''This case tests the search performance of a vector database with a small dataset (<b>Gist 100k vectors</b>, 960 dimensions) under a filtering rate (<b>80% vectors</b>), at varying parallel levels.\<newline>Results will show index building time, recall, and maximum QPS.''
       (manager GIST 100000))
     \<lparr>filter_rate := Some (PyFloat (fl64 (80 / 100))),
      load_timeout := LOAD_TIMEOUT_DEFAULT cfg,
      optimize_timeout := Some (OPTIMIZE_TIMEOUT_DEFAULT cfg)\<rparr>"

definition Performance128D500K80P :: "config \<Rightarrow> unit \<Rightarrow> Case" where
  "Performance128D500K80P cfg u =
     (PerformanceCase cfg CaseType.Performance128D500K80P
       ''Filtering Search Performance Test (500K Dataset, 128 Dim, Filter 80%)''
       ''This case tests the search performance of a vector database with a small dataset (<b>Sift 500k vectors</b>, 128 dimensions) under a filtering rate (<b>80% vectors</b>), at varying parallel levels.\<newline>Results will show index building time, recall, and maximum QPS.''
       (manager SIFT 500000))
     \<lparr>filter_rate := Some (PyFloat (fl64 (80 / 100))),
      load_timeout := LOAD_TIMEOUT_DEFAULT cfg,
      optimize_timeout := Some (OPTIMIZE_TIMEOUT_DEFAULT cfg)\<rparr>"

definition Performance960D100K70P :: "config \<Rightarrow> unit \<Rightarrow> Case" where
  "Performance960D100K70P cfg u =
     (PerformanceCase cfg CaseType.Performance960D100K70P
       ''Filtering Search Performance Test (100K Dataset, 960 Dim, Filter 70%)''
       ''This case tests the search performance of a vector database with a small dataset (<b>Gist 100k vectors</b>, 960 dimensions) under a filtering rate (<b>70% vectors</b>), at varying parallel levels.\<newline>Results will show index building time, recall, and maximum QPS.''
       (manager GIST 100000))
     \<lparr>filter_rate := Some (PyFloat (fl64 (70 / 100))),
      load_timeout := LOAD_TIMEOUT_DEFAULT cfg,
      optimize_timeout := Some (OPTIMIZE_TIMEOUT_DEFAULT cfg)\<rparr>"

definition Performance128D500K70P :: "config \<Rightarrow> unit \<Rightarrow> Case" where
  "Performance128D500K70P cfg u =
     (PerformanceCase cfg CaseType.Performance128D500K70P
       ''Filtering Search Performance Test (500K Dataset, 128 Dim, Filter 70%)''
       ''This case tests the search performance of a vector database with a small dataset (<b>Sift 500k vectors</b>, 128 dimensions) under a filtering rate (<b>70% vectors</b>), at varying parallel levels.\<newline>Results will show index building time, recall, and maximum QPS.''
       (manager SIFT 500000))
     \<lparr>filter_rate := Some (PyFloat (fl64 (70 / 100))),
      load_timeout := LOAD_TIMEOUT_DEFAULT cfg,
      optimize_timeout := Some (OPTIMIZE_TIMEOUT_DEFAULT cfg)\<rparr>"

definition Performance960D100K60P :: "config \<Rightarrow> unit \<Rightarrow> Case" where
  "Performance960D100K60P cfg u =
     (PerformanceCase cfg CaseType.Performance960D100K60P
       ''Filtering Search Performance Test (100K Dataset, 960 Dim, Filter 60%)''
       ''This case tests the search performance of a vector database with a small dataset (<b>Gist 100k vectors</b>, 960 dimensions) under a filtering rate (<b>60% vectors</b>), at varying parallel levels.\<newline>Results will show index building time, recall, and maximum QPS.''
       (manager GIST 100000))
     \<lparr>filter_rate := Some (PyFloat (fl64 (60 / 100))),
      load_timeout := LOAD_TIMEOUT_DEFAULT cfg,
      optimize_timeout := Some (OPTIMIZE_TIMEOUT_DEFAULT cfg)\<rparr>"

definition Performance128D500K60P :: "config \<Rightarrow> unit \<Rightarrow> Case" where
  "Performance128D500K60P cfg u =
     (PerformanceCase cfg CaseType.Performance128D500K60P
       ''Filtering Search Performance Test (500K Dataset, 128 Dim, Filter 60%)''
       ''This case tests the search performance of a vector database with a small dataset (<b>Sift 500k vectors</b>, 128 dimensions) under a filtering rate (<b>60% vectors</b>), at varying parallel levels.\<newline>Results will show index building time, recall, and maximum QPS.''
       (manager SIFT 500000))
     \<lparr>filter_rate := Some (PyFloat (fl64 (60 / 100))),
      load_timeout := LOAD_TIMEOUT_DEFAULT cfg,
      optimize_timeout := Some (OPTIMIZE_TIMEOUT_DEFAULT cfg)\<rparr>"

definition Performance960D100K50P :: "config \<Rightarrow> unit \<Rightarrow> Case" where
  "Performance960D100K50P cfg u =
     (PerformanceCase cfg CaseType.Performance960D100K50P
       ''Filtering Search Performance Test (100K Dataset, 960 Dim, Filter 50%)''
       ''This case tests the search performance of a vector database with a small dataset (<b>Gist 100k vectors</b>, 960 dimensions) under a filtering rate (<b>50% vectors</b>), at varying parallel levels.\<newline>Results will show index building time, recall, and maximum QPS.''
       (manager GIST 100000))
     \<lparr>filter_rate := Some (PyFloat (fl64 (50 / 100))),
      load_timeout := LOAD_TIMEOUT_DEFAULT cfg,
      optimize_timeout := Some (OPTIMIZE_TIMEOUT_DEFAULT cfg)\<rparr>"

definition Performance128D500K50P :: "config \<Rightarrow> unit \<Rightarrow> Case" where
  "Performance128D500K50P cfg u =
     (PerformanceCase cfg CaseType.Performance128D500K50P
       ''Filtering Search Performance Test (500K Dataset, 128 Dim, Filter 50%)''
       ''This case tests the search performance of a vector database with a small dataset (<b>Sift 500k vectors</b>, 128 dimensions) under a filtering rate (<b>50% vectors</b>), at varying parallel levels.\<newline>Results will show index building time, recall, and maximum QPS.''
       (manager SIFT 500000))
     \<lparr>filter_rate := Some (PyFloat (fl64 (50 / 100))),
      load_timeout := LOAD_TIMEOUT_DEFAULT cfg,
      optimize_timeout := Some (OPTIMIZE_TIMEOUT_DEFAULT cfg)\<rparr>"

definition Performance960D100K40P :: "config \<Rightarrow> unit \<Rightarrow> Case" where
  "Performance960D100K40P cfg u =
     (PerformanceCase cfg CaseType.Performance960D100K40P
       ''Filtering Search Performance Test (100K Dataset, 960 Dim, Filter 40%)''
       ''This case tests the search performance of a vector database with a small dataset (<b>Gist 100k vectors</b>, 960 dimensions) under a filtering rate (<b>40% vectors</b>), at varying parallel levels.\<newline>Results will show index building time, recall, and maximum QPS.''
       (manager GIST 100000))
     \<lparr>filter_rate := Some (PyFloat (fl64 (40 / 100))),
      load_timeout := LOAD_TIMEOUT_DEFAULT cfg,
      optimize_timeout := Some (OPTIMIZE_TIMEOUT_DEFAULT cfg)\<rparr>"

definition Performance128D500K40P :: "config \<Rightarrow> unit \<Rightarrow> Case" where
  "Performance128D500K40P cfg u =
     (PerformanceCase cfg CaseType.Performance128D500K40P
       ''Filtering Search Performance Test (500K Dataset, 128 Dim, Filter 40%)''
       ''This case tests the search performance of a vector database with a small dataset (<b>Sift 500k vectors</b>, 128 dimensions) under a filtering rate (<b>40% vectors</b>), at varying parallel levels.\<newline>Results will show index building time, recall, and maximum QPS.''
       (manager SIFT 500000))
     \<lparr>filter_rate := Some (PyFloat (fl64 (40 / 100))),
      load_timeout := LOAD_TIMEOUT_DEFAULT cfg,
      optimize_timeout := Some (OPTIMIZE_TIMEOUT_DEFAULT cfg)\<rparr>"

definition Performance960D100K30P :: "config \<Rightarrow> unit \<Rightarrow> Case" where
  "Performance960D100K30P cfg u =
     (PerformanceCase cfg CaseType.Performance960D100K30P
       ''Filtering Search Performance Test (100K Dataset, 960 Dim, Filter 30%)''
       ''This case tests the search performance of a vector database with a small dataset (<b>Gist 100k vectors</b>, 960 dimensions) under a filtering rate (<b>30% vectors</b>), at varying parallel levels.\<newline>Results will show index building time, recall, and maximum QPS.''
       (manager GIST 100000))
     \<lparr>filter_rate := Some (PyFloat (fl64 (30 / 100))),
      load_timeout := LOAD_TIMEOUT_DEFAULT cfg,
      optimize_timeout := Some (OPTIMIZE_TIMEOUT_DEFAULT cfg)\<rparr>"

definition Performance128D500K30P :: "config \<Rightarrow> unit \<Rightarrow> Case" where
  "Performance128D500K30P cfg u =
     (PerformanceCase cfg CaseType.Performance128D500K30P
       ''Filtering Search Performance Test (500K Dataset, 128 Dim, Filter 30%)''
       ''This case tests the search performance of a vector database with a small dataset (<b>Sift 500k vectors</b>, 128 dimensions) under a filtering rate (<b>30% vectors</b>), at varying parallel levels.\<newline>Results will show index building time, recall, and maximum QPS.''
       (manager SIFT 500000))
     \<lparr>filter_rate := Some (PyFloat (fl64 (30 / 100))),
      load_timeout := LOAD_TIMEOUT_DEFAULT cfg,
      optimize_timeout := Some (OPTIMIZE_TIMEOUT_DEFAULT cfg)\<rparr>"

definition Performance960D100K20P :: "config \<Rightarrow> unit \<Rightarrow> Case" where
  "Performance960D100K20P cfg u =
     (PerformanceCase cfg CaseType.Performance960D100K20P
       ''Filtering Search Performance Test (100K Dataset, 960 Dim, Filter 20%)''
       ''This case tests the search performance of a vector database with a small dataset (<b>Gist 100k vectors</b>, 960 dimensions) under a filtering rate (<b>20% vectors</b>), at varying parallel levels.\<newline>Results will show index building time, recall, and maximum QPS.''
       (manager GIST 100000))
     \<lparr>filter_rate := Some (PyFloat (fl64 (20 / 100))),
      load_timeout := LOAD_TIMEOUT_DEFAULT cfg,
      optimize_timeout := Some (OPTIMIZE_TIMEOUT_DEFAULT cfg)\<rparr>"

definition Performance128D500K20P :: "config \<Rightarrow> unit \<Rightarrow> Case" where
  "Performance128D500K20P cfg u =
     (PerformanceCase cfg CaseType.Performance128D500K20P
       ''Filtering Search Performance Test (500K Dataset, 128 Dim, Filter 20%)''
       ''This case tests the search performance of a vector database with a small dataset (<b>Sift 500k vectors</b>, 128 dimensions) under a filtering rate (<b>20% vectors</b>), at varying parallel levels.\<newline>Results will show index building time, recall, and maximum QPS.''
       (manager SIFT 500000))
     \<lparr>filter_rate := Some (PyFloat (fl64 (20 / 100))),
      load_timeout := LOAD_TIMEOUT_DEFAULT cfg,
      optimize_timeout := Some (OPTIMIZE_TIMEOUT_DEFAULT cfg)\<rparr>"

definition Performance960D100K10P :: "config \<Rightarrow> unit \<Rightarrow> Case" where
  "Performance960D100K10P cfg u =
     (PerformanceCase cfg CaseType.Performance960D100K10P
       ''Filtering Search Performance Test (100K Dataset, 960 Dim, Filter 10%)''
       ''This case tests the search performance of a vector database with a small dataset (<b>Gist 100k vectors</b>, 960 dimensions) under a filtering rate (<b>10% vectors</b>), at varying parallel levels.\<newline>Results will show index building time, recall, and maximum QPS.''
       (manager GIST 100000))
     \<lparr>filter_rate := Some (PyFloat (fl64 (10 / 100))),
      load_timeout := LOAD_TIMEOUT_DEFAULT cfg,
      optimize_timeout := Some (OPTIMIZE_TIMEOUT_DEFAULT cfg)\<rparr>"

definition Performance128D500K10P :: "config \<Rightarrow> unit \<Rightarrow> Case" where
  "Performance128D500K10P cfg u =
     (PerformanceCase cfg CaseType.Performance128D500K10P
       ''Filtering Search Performance Test (500K Dataset, 128 Dim, Filter 10%)''
       ''This case tests the search performance of a vector database with a small dataset (<b>Sift 500k vectors</b>, 128 dimensions) under a filtering rate (<b>10% vectors</b>), at varying parallel levels.\<newline>Results will show index building time, recall, and maximum QPS.''
       (manager SIFT 500000))
     \<lparr>filter_rate := Some (PyFloat (fl64 (10 / 100))),
      load_timeout := LOAD_TIMEOUT_DEFAULT cfg,
      optimize_timeout := Some (OPTIMIZE_TIMEOUT_DEFAULT cfg)\<rparr>"

section \<open>The registry\<close>

text \<open>
  The dictionary \<^verbatim>\<open>type2case\<close>, as the list of its items in insertion order: a
  dictionary display inserts its items from left to right, and a repeated key keeps
  its place and takes the later value, which is what \<open>AList.update\<close> does.
\<close>

definition type2case :: "config \<Rightarrow> (CaseType \<times> (unit \<Rightarrow> Case)) list" where
  "type2case cfg =
     fold (\<lambda>(k, v) d. AList.update k v d)
     [(CaseType.CapacityDim960, CapacityDim960 cfg),
      (CaseType.CapacityDim128, CapacityDim128 cfg),
      (CaseType.Performance768D100M, Performance768D100M cfg),
      (CaseType.Performance768D10M, Performance768D10M cfg),
      (CaseType.Performance768D1M, Performance768D1M cfg),
      (CaseType.Performance768D10M1P, Performance768D10M1P cfg),
      (CaseType.Performance768D1M1P, Performance768D1M1P cfg),
      (CaseType.Performance768D10M99P, Performance768D10M99P cfg),
      (CaseType.Performance768D1M99P, Performance768D1M99P cfg),
      (CaseType.Performance1536D500K, Performance1536D500K cfg),
      (CaseType.Performance1536D5M, Performance1536D5M cfg),
      (CaseType.Performance1536D500K1P, Performance1536D500K1P cfg),
      (CaseType.Performance1536D5M1P, Performance1536D5M1P cfg),
      (CaseType.Performance1536D500K99P, Performance1536D500K99P cfg),
      (CaseType.Performance1536D5M99P, Performance1536D5M99P cfg),
      (CaseType.Performance960D100K90P, Performance960D100K90P cfg),
      (CaseType.Performance128D500K90P, Performance128D500K90P cfg),
      (CaseType.Performance960D100K80P, Performance960D100K80P cfg),
      (CaseType.Performance128D500K80P, Performance128D500K80P cfg),
      (CaseType.Performance960D100K70P, Performance960D100K70P cfg),
      (CaseType.Performance128D500K70P, Performance128D500K70P cfg),
      (CaseType.Performance960D100K60P, Performance960D100K60P cfg),
      (CaseType.Performance128D500K60P, Performance128D500K60P cfg),
      (CaseType.Performance960D100K50P, Performance960D100K50P cfg),
      (CaseType.Performance128D500K50P, Performance128D500K50P cfg),
      (CaseType.Performance960D100K40P, Performance960D100K40P cfg),
      (CaseType.Performance128D500K40P, Performance128D500K40P cfg),
      (CaseType.Performance960D100K30P, Performance960D100K30P cfg),
      (CaseType.Performance128D500K30P, Performance128D500K30P cfg),
      (CaseType.Performance960D100K20P, Performance960D100K20P cfg),
      (CaseType.Performance128D500K20P, Performance128D500K20P cfg),
      (CaseType.Performance960D100K10P, Performance960D100K10P cfg),
      (CaseType.Performance128D500K10P, Performance128D500K10P cfg)]
     []"

text \<open>\<^verbatim>\<open>CaseType.case_cls\<close>: \<^verbatim>\<open>type2case.get(self)\<close>, which is \<^verbatim>\<open>None\<close> for a missing key.\<close>

definition case_cls :: "config \<Rightarrow> CaseType \<Rightarrow> py_error + (unit \<Rightarrow> Case) option" where
  "case_cls cfg self = Inr (map_of (type2case cfg) self)"

definition case_name :: "config \<Rightarrow> CaseType \<Rightarrow> py_error + string" where
  "case_name cfg self =
     (case case_cls cfg self of
        Inl e \<Rightarrow> Inl e
      | Inr c \<Rightarrow>
          (case c of
             Some c' \<Rightarrow> Inr (name (c' ()))
           | None \<Rightarrow> Inl (ValueError ''Case unsupported'')))"

definition case_description :: "config \<Rightarrow> CaseType \<Rightarrow> py_error + string" where
  "case_description cfg self =
     (case case_cls cfg self of
        Inl e \<Rightarrow> Inl e
      | Inr c \<Rightarrow>
          (case c of
             Some c' \<Rightarrow> Inr (description (c' ()))
           | None \<Rightarrow> Inl (ValueError ''Case unsupported'')))"


section \<open>Reading a filter back\<close>

text \<open>
  The decimal text of an integer, read back: an optional minus sign, then digits.
\<close>

definition digit_val :: "char \<Rightarrow> nat option" where
  "digit_val c =
     (if c \<in> set ''0123456789''
      then Some (length (takeWhile (\<lambda>d. d \<noteq> c) ''0123456789''))
      else None)"

fun nat_of_digits :: "nat \<Rightarrow> string \<Rightarrow> nat option" where
  "nat_of_digits acc [] = Some acc"
| "nat_of_digits acc (c # cs) =
     (case digit_val c of
        None \<Rightarrow> None
      | Some d \<Rightarrow> nat_of_digits (10 * acc + d) cs)"

definition int_of_str :: "string \<Rightarrow> int option" where
  "int_of_str s =
     (case s of
        [] \<Rightarrow> None
      | c # cs \<Rightarrow>
          if c = CHR ''-''
          then (if cs = [] then None else map_option (\<lambda>n. - int n) (nat_of_digits 0 cs))
          else map_option int (nat_of_digits 0 s))"

text \<open>
  Modelled from the spec: the database clients that evaluate a filter are not among the
  sources. Per the spec the \<^verbatim>\<open>"metadata"\<close> text \<^verbatim>\<open>">=T"\<close> names the threshold \<open>T\<close>: the
  decimal integer after \<^verbatim>\<open>>=\<close>.
\<close>

definition metadata_threshold :: "string \<Rightarrow> int option" where
  "metadata_threshold s = (if take 2 s = ''>='' then int_of_str (drop 2 s) else None)"

text \<open>
  Modelled from the spec: the filter means ``the ordinal metadata value is greater than
  or equal to the threshold''.
\<close>

definition satisfies :: "filters_dict \<Rightarrow> int \<Rightarrow> bool" where
  "satisfies f v = (case metadata_threshold (metadata f) of Some t \<Rightarrow> t \<le> v | None \<Rightarrow> False)"

text \<open>
  Modelled from the spec: how many of the \<open>N\<close> sequential ordinal positions
  \<open>0, \<dots>, N - 1\<close> satisfy the filter.
\<close>

definition count_satisfying :: "filters_dict \<Rightarrow> int \<Rightarrow> int" where
  "count_satisfying f N = int (length (filter (satisfies f) [0..N - 1]))"

section \<open>Ranges of a filter rate\<close>

text \<open>A rate that is a number between 0 and 1, and a rate that is a finite number.\<close>

fun in_unit_interval :: "number \<Rightarrow> bool" where
  "in_unit_interval (PyInt i) = (0 \<le> i \<and> i \<le> 1)"
| "in_unit_interval (PyFloat (Finite q)) = (0 \<le> q \<and> q \<le> 1)"
| "in_unit_interval (PyFloat x) = False"

fun number_finite :: "number \<Rightarrow> bool" where
  "number_finite (PyInt i) = True"
| "number_finite (PyFloat (Finite q)) = True"
| "number_finite (PyFloat x) = False"

section \<open>Inputs to run the catalog on\<close>

text \<open>
  The theorems below hold for every configuration. Where a statement is evaluated at
  a concrete input, it is evaluated on this one, with every timeout one day.
\<close>

definition example_config :: config where
  "example_config =
     \<lparr>CAPACITY_TIMEOUT_IN_SECONDS = PyInt 86400,
      LOAD_TIMEOUT_DEFAULT = PyInt 86400,
      LOAD_TIMEOUT_768D_1M = PyInt 86400,
      LOAD_TIMEOUT_768D_10M = PyInt 86400,
      LOAD_TIMEOUT_768D_100M = PyInt 86400,
      LOAD_TIMEOUT_1536D_500K = PyInt 86400,
      LOAD_TIMEOUT_1536D_5M = PyInt 86400,
      OPTIMIZE_TIMEOUT_DEFAULT = PyInt 86400,
      OPTIMIZE_TIMEOUT_768D_1M = PyInt 86400,
      OPTIMIZE_TIMEOUT_768D_10M = PyInt 86400,
      OPTIMIZE_TIMEOUT_768D_100M = PyInt 86400,
      OPTIMIZE_TIMEOUT_1536D_500K = PyInt 86400,
      OPTIMIZE_TIMEOUT_1536D_5M = PyInt 86400\<rparr>"

text \<open>
  A descriptor that a caller builds by itself, under the identifier \<^verbatim>\<open>Custom\<close>, with a
  filter rate \<open>r\<close> and a dataset of \<open>n\<close> records.
\<close>

definition custom_case :: "number \<Rightarrow> int \<Rightarrow> Case" where
  "custom_case r n =
     \<lparr>case_id = CaseType.Custom, label = Performance, name = ''Custom'', description = ''Custom'',
      dataset = manager COHERE n,
      load_timeout = PyInt 86400,
      optimize_timeout = Some (PyInt 86400),
      filter_rate = Some r\<rparr>"

section \<open>Rounding\<close>

lemma round_half_even_cases:
  "round_half_even q = \<lfloor>q\<rfloor> \<or> round_half_even q = \<lfloor>q\<rfloor> + 1"
  by (simp add: round_half_even_def Let_def)

lemma round_half_even_of_int [simp]: "round_half_even (of_int z) = z"
  by (simp add: round_half_even_def)

lemma round_half_even_numeral [simp]: "round_half_even (numeral n) = numeral n"
  using round_half_even_of_int [of "numeral n"] by simp

lemma round_half_even_0 [simp]: "round_half_even 0 = 0"
  using round_half_even_of_int [of 0] by simp

lemma round_half_even_le: "q \<le> of_int z \<Longrightarrow> round_half_even q \<le> z"
proof -
  assume le: "q \<le> of_int z"
  show ?thesis
  proof (cases "q = of_int z")
    case True
    then show ?thesis by simp
  next
    case False
    with le have "q < of_int z" by simp
    then have "\<lfloor>q\<rfloor> < z" by (simp add: floor_less_iff)
    with round_half_even_cases [of q] show ?thesis by auto
  qed
qed

lemma round_half_even_ge: "of_int z \<le> q \<Longrightarrow> z \<le> round_half_even q"
proof -
  assume "of_int z \<le> q"
  then have "z \<le> \<lfloor>q\<rfloor>" by (simp add: le_floor_iff)
  with round_half_even_cases [of q] show ?thesis by auto
qed

lemma round_half_even_eqI:
  assumes "\<bar>q - of_int m\<bar> < 1 / 2"
  shows "round_half_even q = m"
proof (cases "of_int m \<le> q")
  case True
  with assms have "q < of_int m + 1" by linarith
  with True have fl: "\<lfloor>q\<rfloor> = m" by (simp add: floor_unique)
  from assms True have "q - of_int m < 1 / 2" by linarith
  with fl show ?thesis by (simp add: round_half_even_def Let_def)
next
  case False
  then have lt: "q < of_int m" by simp
  from assms lt have "of_int (m - 1) \<le> q" by simp
  moreover from lt have "q < of_int (m - 1) + 1" by simp
  ultimately have fl: "\<lfloor>q\<rfloor> = m - 1" by (rule floor_unique)
  from assms lt have "1 / 2 < q - of_int (m - 1)" by simp
  with fl show ?thesis by (simp add: round_half_even_def Let_def)
qed

lemma ilog2_bounds:
  assumes "0 < q"
  shows "2 powi (ilog2 q) \<le> q \<and> q < 2 powi (ilog2 q + 1)"
proof -
  obtain a b where ab: "quotient_of q = (a, b)" by (cases "quotient_of q")
  then have b: "0 < b" by (rule quotient_of_denom_pos)
  from ab have q: "q = of_int a / of_int b" by (rule quotient_of_div)
  with assms b have a: "0 < a" by (simp add: zero_less_divide_iff)
  define la lb where "la = bitlen a" and "lb = bitlen b"
  from bitlen_bounds [OF a] have a1: "2 ^ nat (la - 1) \<le> a" and a2: "a < 2 ^ nat la"
    by (simp_all add: la_def)
  from bitlen_bounds [OF b] have b1: "2 ^ nat (lb - 1) \<le> b" and b2: "b < 2 ^ nat lb"
    by (simp_all add: lb_def)
  have la: "1 \<le> la" using a bitlen_eq_zero_iff [of a] bitlen_nonneg [of a] by (simp add: la_def)
  have lb: "1 \<le> lb" using b bitlen_eq_zero_iff [of b] bitlen_nonneg [of b] by (simp add: lb_def)
  have A1: "(2::rat) powi (la - 1) \<le> of_int a"
  proof -
    have "(of_int (2 ^ nat (la - 1)) :: rat) \<le> of_int a" using a1 by (simp only: of_int_le_iff)
    then show ?thesis using la by (simp add: power_int_def)
  qed
  have A2: "of_int a < (2::rat) powi la"
  proof -
    have "(of_int a :: rat) < of_int (2 ^ nat la)" using a2 by (simp only: of_int_less_iff)
    then show ?thesis using la by (simp add: power_int_def)
  qed
  have B1: "(2::rat) powi (lb - 1) \<le> of_int b"
  proof -
    have "(of_int (2 ^ nat (lb - 1)) :: rat) \<le> of_int b" using b1 by (simp only: of_int_le_iff)
    then show ?thesis using lb by (simp add: power_int_def)
  qed
  have B2: "of_int b < (2::rat) powi lb"
  proof -
    have "(of_int b :: rat) < of_int (2 ^ nat lb)" using b2 by (simp only: of_int_less_iff)
    then show ?thesis using lb by (simp add: power_int_def)
  qed
  have bpos: "(0::rat) < of_int b" using b by simp
  have lower: "(2::rat) powi (la - lb - 1) \<le> q"
  proof -
    have "(2::rat) powi (la - lb - 1) * of_int b \<le> 2 powi (la - lb - 1) * 2 powi lb"
      using B2 by (intro mult_left_mono) simp_all
    also have "\<dots> = 2 powi (la - 1)"
      by (simp flip: power_int_add)
    also have "\<dots> \<le> of_int a" by (rule A1)
    finally show ?thesis using bpos by (simp add: q pos_le_divide_eq)
  qed
  have upper: "q < (2::rat) powi (la - lb + 1)"
  proof -
    have "of_int a < (2::rat) powi la" by (rule A2)
    also have "\<dots> = 2 powi (la - lb + 1) * 2 powi (lb - 1)"
      by (simp flip: power_int_add)
    also have "\<dots> \<le> 2 powi (la - lb + 1) * of_int b"
      using B1 by (intro mult_left_mono) simp_all
    finally show ?thesis using bpos by (simp add: q pos_divide_less_eq)
  qed
  show ?thesis
  proof (cases "(2::rat) powi (la - lb) \<le> q")
    case True
    then have "ilog2 q = la - lb" by (simp add: ilog2_def ab la_def lb_def)
    with True upper show ?thesis by simp
  next
    case False
    then have "ilog2 q = la - lb - 1" by (simp add: ilog2_def ab la_def lb_def)
    with False lower show ?thesis by simp
  qed
qed

lemma ilog2_unique:
  assumes "0 < q" and lo: "2 powi e \<le> q" and hi: "q < 2 powi (e + 1)"
  shows "ilog2 q = e"
proof -
  from ilog2_bounds [OF assms(1)]
  have l: "2 powi (ilog2 q) \<le> q" and h: "q < 2 powi (ilog2 q + 1)" by simp_all
  have 1: "e < ilog2 q + 1"
  proof (rule ccontr)
    assume "\<not> e < ilog2 q + 1"
    then have "(2::rat) powi (ilog2 q + 1) \<le> 2 powi e"
      by (intro power_int_increasing) simp_all
    with lo h show False by simp
  qed
  have 2: "ilog2 q < e + 1"
  proof (rule ccontr)
    assume "\<not> ilog2 q < e + 1"
    then have "(2::rat) powi (e + 1) \<le> 2 powi (ilog2 q)"
      by (intro power_int_increasing) simp_all
    with l hi show False by simp
  qed
  from 1 2 show ?thesis by simp
qed


section \<open>The binary64 rounding of a rational\<close>

lemma fl64_normal:
  assumes "q \<noteq> 0" and "2 powi e \<le> \<bar>q\<bar>" and "\<bar>q\<bar> < 2 powi (e + 1)" and "- 1022 \<le> e"
    and "round_half_even (q / 2 powi (e - 52)) = m"
    and "\<bar>of_int m * 2 powi (e - 52)\<bar> < (2::rat) powi 1024"
  shows "fl64 q = Finite (of_int m * 2 powi (e - 52))"
proof -
  from assms(1) have "0 < \<bar>q\<bar>" by simp
  then have "ilog2 \<bar>q\<bar> = e" using assms(2,3) by (rule ilog2_unique)
  with assms(4) have "max (ilog2 \<bar>q\<bar>) (- 1022) = e" by simp
  with assms(1,5,6) show ?thesis
    by (simp add: fl64_def Let_def del: power_int_numeral)
qed

lemma fl64_0_01: "fl64 (1 / 100) = Finite (5764607523034235 / 576460752303423488)"
proof -
  have "fl64 (1 / 100) = Finite (of_int 5764607523034235 * 2 powi (- 7 - 52))"
  proof (rule fl64_normal)
    show "round_half_even (1 / 100 / 2 powi (- 7 - 52)) = 5764607523034235"
      by (rule round_half_even_eqI) (simp add: power_int_minus)
  qed (simp_all add: power_int_minus)
  then show ?thesis by (simp add: power_int_minus)
qed

lemma fl64_0_99: "fl64 (99 / 100) = Finite (4458563631096791 / 4503599627370496)"
proof -
  have "fl64 (99 / 100) = Finite (of_int 8917127262193582 * 2 powi (- 1 - 52))"
  proof (rule fl64_normal)
    show "round_half_even (99 / 100 / 2 powi (- 1 - 52)) = 8917127262193582"
      by (rule round_half_even_eqI) (simp add: power_int_minus)
  qed (simp_all add: power_int_minus)
  then show ?thesis by (simp add: power_int_minus)
qed

lemma ilog2_le:
  assumes "0 < q" and "q < 2 powi b"
  shows "ilog2 q < b"
proof (rule ccontr)
  assume "\<not> ilog2 q < b"
  then have "(2::rat) powi b \<le> 2 powi (ilog2 q)"
    by (intro power_int_increasing) simp_all
  with ilog2_bounds [OF assms(1)] assms(2) show False by simp
qed

lemma fl64_between:
  assumes "0 \<le> q" and "q \<le> of_int N" and "N < 2 ^ 53"
  shows "\<exists>r. fl64 q = Finite r \<and> 0 \<le> r \<and> r \<le> of_int N"
proof (cases "q = 0")
  case True
  with assms show ?thesis by (simp add: fl64_def)
next
  case False
  with assms(1) have qpos: "0 < q" by simp
  define e where "e = max (ilog2 \<bar>q\<bar>) (- 1022)"
  define k where "k = nat (52 - e)"
  define m where "m = round_half_even (q / 2 powi (e - 52))"
  have "(of_int N :: rat) < of_int (2 ^ 53)" using assms(3) by (simp only: of_int_less_iff)
  then have "q < 2 powi 53" using assms(2) by simp
  with qpos have "ilog2 q < 53" by (rule ilog2_le)
  then have e: "e \<le> 52" using qpos by (simp add: e_def)
  then have u: "(2::rat) powi (e - 52) = 1 / 2 ^ k"
    by (simp add: power_int_def k_def field_simps)
  have "0 \<le> m"
    unfolding m_def using qpos by (intro round_half_even_ge) simp
  moreover have "m \<le> N * 2 ^ k"
    unfolding m_def using assms(2) by (intro round_half_even_le) (simp add: u)
  then have "(of_int m :: rat) \<le> of_int (N * 2 ^ k)" by (simp only: of_int_le_iff)
  then have "of_int m * (2::rat) powi (e - 52) \<le> of_int N"
    by (simp add: u field_simps)
  moreover have "(of_int N :: rat) < 2 powi 1024"
  proof -
    have "(of_int N :: rat) < 2 ^ 53" using \<open>(of_int N :: rat) < of_int (2 ^ 53)\<close> by simp
    also have "\<dots> \<le> 2 ^ 1024" by (rule power_increasing) simp_all
    finally show ?thesis by simp
  qed
  ultimately show ?thesis
    using False by (simp add: fl64_def Let_def e_def [symmetric] m_def [symmetric] del: power_int_numeral)
qed

lemma fl64_of_int:
  assumes "\<bar>n\<bar> < 2 ^ 53"
  shows "fl64 (of_int n) = Finite (of_int n)"
proof (cases "n = 0")
  case True
  then show ?thesis by (simp add: fl64_def)
next
  case False
  define q :: rat where "q = of_int n"
  define e where "e = max (ilog2 \<bar>q\<bar>) (- 1022)"
  define k where "k = nat (52 - e)"
  have qpos: "0 < \<bar>q\<bar>" using False by (simp add: q_def)
  have "(of_int \<bar>n\<bar> :: rat) < of_int (2 ^ 53)" using assms by (simp only: of_int_less_iff)
  then have lt: "\<bar>q\<bar> < 2 powi 53" by (simp add: q_def)
  with qpos have "ilog2 \<bar>q\<bar> < 53" by (rule ilog2_le)
  then have e: "e \<le> 52" by (simp add: e_def)
  then have u: "(2::rat) powi (e - 52) = 1 / 2 ^ k"
    by (simp add: power_int_def k_def field_simps)
  have "q / 2 powi (e - 52) = of_int (n * 2 ^ k)" by (simp add: u q_def)
  then have m: "round_half_even (q / 2 powi (e - 52)) = n * 2 ^ k"
    by (simp only: round_half_even_of_int)
  have r: "of_int n * 2 ^ k * (2::rat) powi (e - 52) = q" by (simp add: u q_def)
  have "\<bar>q\<bar> < 2 powi 1024"
  proof -
    have "\<bar>q\<bar> < 2 ^ 53" using lt by simp
    also have "\<dots> \<le> 2 ^ 1024" by (rule power_increasing) simp_all
    finally show ?thesis by simp
  qed
  then show ?thesis
    using qpos unfolding q_def [symmetric]
    by (simp add: fl64_def Let_def e_def [symmetric] m r del: power_int_numeral)
qed

lemma float_of_int_small: "\<bar>n\<bar> < 2 ^ 53 \<Longrightarrow> float_of_int n = Inr (Finite (of_int n))"
  by (simp add: float_of_int_def fl64_of_int)

lemma mul_0_01_10M: "fl64 (5764607523034235 / 576460752303423488 * 10000000) = Finite 100000"
proof -
  have "fl64 (5764607523034235 / 576460752303423488 * 10000000)
      = Finite (of_int 6871947673600000 * 2 powi (16 - 52))"
  proof (rule fl64_normal)
    show "round_half_even (5764607523034235 / 576460752303423488 * 10000000 / 2 powi (16 - 52))
        = 6871947673600000"
      by (rule round_half_even_eqI) (simp add: power_int_minus)
  qed (simp_all add: power_int_minus)
  then show ?thesis by (simp add: power_int_minus)
qed

lemma mul_0_01_1M: "fl64 (5764607523034235 / 576460752303423488 * 1000000) = Finite 10000"
proof -
  have "fl64 (5764607523034235 / 576460752303423488 * 1000000)
      = Finite (of_int 5497558138880000 * 2 powi (13 - 52))"
  proof (rule fl64_normal)
    show "round_half_even (5764607523034235 / 576460752303423488 * 1000000 / 2 powi (13 - 52))
        = 5497558138880000"
      by (rule round_half_even_eqI) (simp add: power_int_minus)
  qed (simp_all add: power_int_minus)
  then show ?thesis by (simp add: power_int_minus)
qed

lemma mul_0_99_1M: "fl64 (4458563631096791 / 4503599627370496 * 1000000) = Finite 990000"
proof -
  have "fl64 (4458563631096791 / 4503599627370496 * 1000000)
      = Finite (of_int 8504035246080000 * 2 powi (19 - 52))"
  proof (rule fl64_normal)
    show "round_half_even (4458563631096791 / 4503599627370496 * 1000000 / 2 powi (19 - 52))
        = 8504035246080000"
      by (rule round_half_even_eqI) (simp add: power_int_minus)
  qed (simp_all add: power_int_minus)
  then show ?thesis by (simp add: power_int_minus)
qed


section \<open>Decimal text and the comparison it denotes\<close>

lemma digit_cases: "d < 10 \<Longrightarrow> d \<in> {0, 1, 2, 3, 4, 5, 6, 7, 8, 9::nat}"
  by auto

lemma digit_val_digit_char: "d < 10 \<Longrightarrow> digit_val (digit_char d) = Some d"
  by (drule digit_cases) (auto simp: digit_val_def digit_char_def)

lemma digit_char_not_minus: "d < 10 \<Longrightarrow> digit_char d \<noteq> CHR ''-''"
  by (drule digit_cases) (auto simp: digit_char_def)

lemma nat_of_digits_snoc:
  "nat_of_digits acc (cs @ [c]) =
     (case nat_of_digits acc cs of
        None \<Rightarrow> None
      | Some a \<Rightarrow> (case digit_val c of None \<Rightarrow> None | Some d \<Rightarrow> Some (10 * a + d)))"
  by (induction cs arbitrary: acc) (auto split: option.splits)

declare str_nat.simps [simp del]

lemma nat_of_digits_str_nat: "nat_of_digits 0 (str_nat n) = Some n"
proof (induction n rule: str_nat.induct)
  case (1 n)
  show ?case
  proof (cases "n < 10")
    case True
    then show ?thesis
      by (subst str_nat.simps) (simp add: digit_val_digit_char)
  next
    case False
    with 1 have "nat_of_digits 0 (str_nat (n div 10)) = Some (n div 10)" by simp
    with False show ?thesis
      by (subst str_nat.simps) (simp add: nat_of_digits_snoc digit_val_digit_char)
  qed
qed

lemma str_nat_head: "\<exists>c cs. str_nat n = c # cs \<and> c \<noteq> CHR ''-''"
proof (induction n rule: str_nat.induct)
  case (1 n)
  show ?case
  proof (cases "n < 10")
    case True
    then show ?thesis
      by (subst str_nat.simps) (simp add: digit_char_not_minus)
  next
    case False
    with 1 obtain c cs where "str_nat (n div 10) = c # cs" and "c \<noteq> CHR ''-''" by auto
    with False show ?thesis
      by (subst str_nat.simps) simp
  qed
qed

lemma int_of_str_str_int: "int_of_str (str_int i) = Some i"
proof (cases "i < 0")
  case True
  obtain c cs where "str_nat (nat (- i)) = c # cs" using str_nat_head by blast
  moreover have "nat_of_digits 0 (str_nat (nat (- i))) = Some (nat (- i))"
    by (rule nat_of_digits_str_nat)
  ultimately show ?thesis using True by (simp add: int_of_str_def str_int_def)
next
  case False
  obtain c cs where s: "str_nat (nat i) = c # cs" and c: "c \<noteq> CHR ''-''"
    using str_nat_head by blast
  have "nat_of_digits 0 (str_nat (nat i)) = Some (nat i)"
    by (rule nat_of_digits_str_nat)
  with s have "nat_of_digits 0 (c # cs) = Some (nat i)" by simp
  with s c False show ?thesis by (simp add: int_of_str_def str_int_def del: nat_of_digits.simps)
qed

lemma metadata_threshold_str_int: "metadata_threshold (''>='' @ str_int T) = Some T"
  by (simp add: metadata_threshold_def int_of_str_str_int)

lemma satisfies_iff:
  "metadata f = ''>='' @ str_int T \<Longrightarrow> satisfies f v = (T \<le> v)"
  by (simp only: satisfies_def metadata_threshold_str_int option.case)

lemma filter_ge_upto: "filter (\<lambda>v. T \<le> v) [a..b] = [max T a..b]"
proof (induction a b rule: upto.induct)
  case (1 i j)
  show ?case
  proof (cases "i \<le> j")
    case True
    then have step: "[i..j] = i # [i + 1..j]" by (simp add: upto.simps)
    show ?thesis
    proof (cases "T \<le> i")
      case True
      with 1 \<open>i \<le> j\<close> show ?thesis by (simp add: step max_def)
    next
      case False
      with 1 \<open>i \<le> j\<close> have "filter (\<lambda>v. T \<le> v) [i..j] = [max T (i + 1)..j]" by (simp add: step)
      also from False have "max T (i + 1) = max T i" by simp
      finally show ?thesis .
    qed
  next
    case False
    then show ?thesis by simp
  qed
qed

lemma count_satisfying_eq:
  assumes "metadata f = ''>='' @ str_int T" and "0 \<le> N"
  shows "count_satisfying f N = N - min N (max T 0)"
proof -
  have "satisfies f = (\<lambda>v. T \<le> v)" using assms(1) by (simp add: fun_eq_iff satisfies_iff)
  then have "count_satisfying f N = int (length [max T 0..N - 1])"
    by (simp add: count_satisfying_def filter_ge_upto)
  also have "\<dots> = N - min N (max T 0)" using assms(2) by simp
  finally show ?thesis .
qed

section \<open>The filter of a descriptor\<close>

lemma filters_rate:
  "filter_rate c = Some r \<Longrightarrow>
   filters c =
     (case py_round_mul r (size_n (data (dataset c))) of
        Inl e \<Rightarrow> Inl e
      | Inr T \<Rightarrow> Inr (Some \<lparr>metadata = ''>='' @ str_int T, id_val = T\<rparr>))"
  by (simp add: filters_def)

lemma filters_SomeD:
  assumes "filter_rate c = Some r" and "filters c = Inr (Some f)"
  shows "py_round_mul r (size_n (data (dataset c))) = Inr (id_val f)"
    and "metadata f = ''>='' @ str_int (id_val f)"
  using assms by (auto simp: filters_def split: sum.splits)

lemma py_round_mul_float:
  "\<bar>N\<bar> < 2 ^ 53 \<Longrightarrow>
   py_round_mul (PyFloat (Finite q)) N = py_round (PyFloat (fl64 (q * of_int N)))"
  by (simp add: py_round_mul_def float_of_int_small)

lemma py_round_mul_exact:
  assumes "q * of_int N = of_int z" and "\<bar>N\<bar> < 2 ^ 53" and "\<bar>z\<bar> < 2 ^ 53"
  shows "py_round_mul (PyFloat (Finite q)) N = Inr z"
  using assms by (simp add: py_round_mul_float fl64_of_int)

lemma py_round_mul_unit:
  assumes "in_unit_interval r" and "0 \<le> N" and "N < 2 ^ 53"
  shows "\<exists>T. py_round_mul r N = Inr T \<and> 0 \<le> T \<and> T \<le> N"
proof (cases r)
  case (PyInt i)
  with assms(1) have "i = 0 \<or> i = 1" by auto
  with PyInt assms(2) show ?thesis by (auto simp: py_round_mul_def)
next
  case (PyFloat x)
  with assms(1) obtain q where x: "x = Finite q" and q: "0 \<le> q" "q \<le> 1"
    by (cases x) auto
  have N: "(0::rat) \<le> of_int N" using assms(2) by simp
  have lo: "0 \<le> q * of_int N" using q(1) N by (rule mult_nonneg_nonneg)
  have hi: "q * of_int N \<le> of_int N" using N q by (rule mult_left_le_one_le)
  from fl64_between [OF lo hi assms(3)]
  obtain p where p: "fl64 (q * of_int N) = Finite p" "0 \<le> p" "p \<le> of_int N" by blast
  have "0 \<le> round_half_even p" using p(2) by (intro round_half_even_ge) simp
  moreover have "round_half_even p \<le> N" using p(3) by (rule round_half_even_le)
  moreover have "\<bar>N\<bar> < 2 ^ 53" using assms(2,3) by simp
  ultimately show ?thesis
    using PyFloat x p(1) by (simp add: py_round_mul_float)
qed

lemma py_round_mul_zero: "number_finite r \<Longrightarrow> py_round_mul r 0 = Inr 0"
proof (cases r)
  case (PyInt i)
  then show ?thesis by (simp add: py_round_mul_def)
next
  case (PyFloat x)
  assume "number_finite r"
  with PyFloat obtain q where "x = Finite q" by (cases x) auto
  with PyFloat show ?thesis
    using py_round_mul_exact [of q 0 0] by simp
qed

lemma py_round_mul_errors:
  assumes "py_round_mul r N = Inl e"
  shows "e = OverflowError ''int too large to convert to float''
       \<or> e = OverflowError ''cannot convert float infinity to integer''
       \<or> e = ValueError ''cannot convert float NaN to integer''"
proof (cases r)
  case (PyInt i)
  with assms show ?thesis by (simp add: py_round_mul_def)
next
  case (PyFloat x)
  show ?thesis
  proof (cases "float_of_int N")
    case (Inl e')
    then have "e' = OverflowError ''int too large to convert to float''"
      by (auto simp: float_of_int_def split: pyfloat.splits)
    with assms PyFloat Inl show ?thesis by (simp add: py_round_mul_def)
  next
    case (Inr y)
    with assms PyFloat have "py_round (PyFloat (float_mul x y)) = Inl e"
      by (simp add: py_round_mul_def)
    then show ?thesis by (cases "float_mul x y") auto
  qed
qed

lemma py_round_mul_0_01_1M: "py_round_mul (PyFloat (fl64 (1 / 100))) 1000000 = Inr 10000"
  using mul_0_01_1M by (simp add: py_round_mul_float fl64_0_01)

lemma py_round_mul_0_99_1M: "py_round_mul (PyFloat (fl64 (99 / 100))) 1000000 = Inr 990000"
  using mul_0_99_1M by (simp add: py_round_mul_float fl64_0_99)

lemma py_round_mul_0_01_10M: "py_round_mul (PyFloat (fl64 (1 / 100))) 10000000 = Inr 100000"
  using mul_0_01_10M by (simp add: py_round_mul_float fl64_0_01)

lemma py_round_mul_2_10: "py_round_mul (PyFloat (Finite 2)) 10 = Inr 20"
  using py_round_mul_exact [of 2 10 20] by simp

lemma fl64_2_53_3: "fl64 9007199254740995 = Finite 9007199254740996"
proof -
  have "fl64 9007199254740995 = Finite (of_int 4503599627370498 * 2 powi (53 - 52))"
  proof (rule fl64_normal)
    have "\<lfloor>(9007199254740995::rat) / 2\<rfloor> = 4503599627370497"
      by (rule floor_unique) simp_all
    then show "round_half_even (9007199254740995 / 2 powi (53 - 52)) = 4503599627370498"
      by (simp add: round_half_even_def Let_def)
  qed simp_all
  then show ?thesis by simp
qed

lemma fl64_2_53_4: "fl64 9007199254740996 = Finite 9007199254740996"
proof -
  have "fl64 9007199254740996 = Finite (of_int 4503599627370498 * 2 powi (53 - 52))"
  proof (rule fl64_normal)
    show "round_half_even (9007199254740996 / 2 powi (53 - 52)) = 4503599627370498"
      by simp
  qed simp_all
  then show ?thesis by simp
qed

lemma py_round_mul_1_2_53_3:
  "py_round_mul (PyFloat (Finite 1)) 9007199254740995 = Inr 9007199254740996"
proof -
  have "float_of_int 9007199254740995 = Inr (Finite 9007199254740996)"
    using fl64_2_53_3 by (simp add: float_of_int_def)
  then show ?thesis
    using fl64_2_53_4 by (simp add: py_round_mul_def)
qed

section \<open>The registry and the catalog\<close>

lemmas catalog_defs =
  CapacityDim960_def CapacityDim128_def Performance768D100M_def Performance768D10M_def
  Performance768D1M_def Performance768D10M1P_def Performance768D1M1P_def
  Performance768D10M99P_def Performance768D1M99P_def Performance1536D500K_def
  Performance1536D5M_def Performance1536D500K1P_def Performance1536D5M1P_def
  Performance1536D500K99P_def Performance1536D5M99P_def Performance960D100K90P_def
  Performance128D500K90P_def Performance960D100K80P_def Performance128D500K80P_def
  Performance960D100K70P_def Performance128D500K70P_def Performance960D100K60P_def
  Performance128D500K60P_def Performance960D100K50P_def Performance128D500K50P_def
  Performance960D100K40P_def Performance128D500K40P_def Performance960D100K30P_def
  Performance128D500K30P_def Performance960D100K20P_def Performance128D500K20P_def
  Performance960D100K10P_def Performance128D500K10P_def
  CapacityCase_def PerformanceCase_def manager_def

lemma type2case_items:
  "type2case cfg =
     [(CaseType.CapacityDim960, CapacityDim960 cfg),
      (CaseType.CapacityDim128, CapacityDim128 cfg),
      (CaseType.Performance768D100M, Performance768D100M cfg),
      (CaseType.Performance768D10M, Performance768D10M cfg),
      (CaseType.Performance768D1M, Performance768D1M cfg),
      (CaseType.Performance768D10M1P, Performance768D10M1P cfg),
      (CaseType.Performance768D1M1P, Performance768D1M1P cfg),
      (CaseType.Performance768D10M99P, Performance768D10M99P cfg),
      (CaseType.Performance768D1M99P, Performance768D1M99P cfg),
      (CaseType.Performance1536D500K, Performance1536D500K cfg),
      (CaseType.Performance1536D5M, Performance1536D5M cfg),
      (CaseType.Performance1536D500K1P, Performance1536D500K1P cfg),
      (CaseType.Performance1536D5M1P, Performance1536D5M1P cfg),
      (CaseType.Performance1536D500K99P, Performance1536D500K99P cfg),
      (CaseType.Performance1536D5M99P, Performance1536D5M99P cfg),
      (CaseType.Performance960D100K90P, Performance960D100K90P cfg),
      (CaseType.Performance128D500K90P, Performance128D500K90P cfg),
      (CaseType.Performance960D100K80P, Performance960D100K80P cfg),
      (CaseType.Performance128D500K80P, Performance128D500K80P cfg),
      (CaseType.Performance960D100K70P, Performance960D100K70P cfg),
      (CaseType.Performance128D500K70P, Performance128D500K70P cfg),
      (CaseType.Performance960D100K60P, Performance960D100K60P cfg),
      (CaseType.Performance128D500K60P, Performance128D500K60P cfg),
      (CaseType.Performance960D100K50P, Performance960D100K50P cfg),
      (CaseType.Performance128D500K50P, Performance128D500K50P cfg),
      (CaseType.Performance960D100K40P, Performance960D100K40P cfg),
      (CaseType.Performance128D500K40P, Performance128D500K40P cfg),
      (CaseType.Performance960D100K30P, Performance960D100K30P cfg),
      (CaseType.Performance128D500K30P, Performance128D500K30P cfg),
      (CaseType.Performance960D100K20P, Performance960D100K20P cfg),
      (CaseType.Performance128D500K20P, Performance128D500K20P cfg),
      (CaseType.Performance960D100K10P, Performance960D100K10P cfg),
      (CaseType.Performance128D500K10P, Performance128D500K10P cfg)]"
  by (simp add: type2case_def)

lemma type2case_keys:
  "map fst (type2case cfg) =
     [CaseType.CapacityDim960,
      CaseType.CapacityDim128,
      CaseType.Performance768D100M,
      CaseType.Performance768D10M,
      CaseType.Performance768D1M,
      CaseType.Performance768D10M1P,
      CaseType.Performance768D1M1P,
      CaseType.Performance768D10M99P,
      CaseType.Performance768D1M99P,
      CaseType.Performance1536D500K,
      CaseType.Performance1536D5M,
      CaseType.Performance1536D500K1P,
      CaseType.Performance1536D5M1P,
      CaseType.Performance1536D500K99P,
      CaseType.Performance1536D5M99P,
      CaseType.Performance960D100K90P,
      CaseType.Performance128D500K90P,
      CaseType.Performance960D100K80P,
      CaseType.Performance128D500K80P,
      CaseType.Performance960D100K70P,
      CaseType.Performance128D500K70P,
      CaseType.Performance960D100K60P,
      CaseType.Performance128D500K60P,
      CaseType.Performance960D100K50P,
      CaseType.Performance128D500K50P,
      CaseType.Performance960D100K40P,
      CaseType.Performance128D500K40P,
      CaseType.Performance960D100K30P,
      CaseType.Performance128D500K30P,
      CaseType.Performance960D100K20P,
      CaseType.Performance128D500K20P,
      CaseType.Performance960D100K10P,
      CaseType.Performance128D500K10P]"
  by (simp add: type2case_items)

lemma CaseType_UNIV:
  "(UNIV :: CaseType set) =
     {CaseType.CapacityDim960, CaseType.CapacityDim128, CaseType.Performance768D100M,
      CaseType.Performance768D10M, CaseType.Performance768D1M, CaseType.Performance768D10M1P,
      CaseType.Performance768D1M1P, CaseType.Performance768D10M99P,
      CaseType.Performance768D1M99P, CaseType.Performance1536D500K,
      CaseType.Performance1536D5M, CaseType.Performance1536D500K1P,
      CaseType.Performance1536D5M1P, CaseType.Performance1536D500K99P,
      CaseType.Performance1536D5M99P, CaseType.Performance960D100K90P,
      CaseType.Performance128D500K90P, CaseType.Performance960D100K80P,
      CaseType.Performance128D500K80P, CaseType.Performance960D100K70P,
      CaseType.Performance128D500K70P, CaseType.Performance960D100K60P,
      CaseType.Performance128D500K60P, CaseType.Performance960D100K50P,
      CaseType.Performance128D500K50P, CaseType.Performance960D100K40P,
      CaseType.Performance128D500K40P, CaseType.Performance960D100K30P,
      CaseType.Performance128D500K30P, CaseType.Performance960D100K20P,
      CaseType.Performance128D500K20P, CaseType.Performance960D100K10P,
      CaseType.Performance128D500K10P, CaseType.Custom}"
proof -
  have "t \<in> {CaseType.CapacityDim960, CaseType.CapacityDim128, CaseType.Performance768D100M,
      CaseType.Performance768D10M, CaseType.Performance768D1M, CaseType.Performance768D10M1P,
      CaseType.Performance768D1M1P, CaseType.Performance768D10M99P,
      CaseType.Performance768D1M99P, CaseType.Performance1536D500K,
      CaseType.Performance1536D5M, CaseType.Performance1536D500K1P,
      CaseType.Performance1536D5M1P, CaseType.Performance1536D500K99P,
      CaseType.Performance1536D5M99P, CaseType.Performance960D100K90P,
      CaseType.Performance128D500K90P, CaseType.Performance960D100K80P,
      CaseType.Performance128D500K80P, CaseType.Performance960D100K70P,
      CaseType.Performance128D500K70P, CaseType.Performance960D100K60P,
      CaseType.Performance128D500K60P, CaseType.Performance960D100K50P,
      CaseType.Performance128D500K50P, CaseType.Performance960D100K40P,
      CaseType.Performance128D500K40P, CaseType.Performance960D100K30P,
      CaseType.Performance128D500K30P, CaseType.Performance960D100K20P,
      CaseType.Performance128D500K20P, CaseType.Performance960D100K10P,
      CaseType.Performance128D500K10P, CaseType.Custom}" for t
    by (cases t) simp_all
  then show ?thesis by blast
qed

lemma type2case_distinct: "distinct (map fst (type2case cfg))"
  by (simp add: type2case_keys)

lemma type2case_dom: "set (map fst (type2case cfg)) = UNIV - {CaseType.Custom}"
  by (simp only: type2case_keys CaseType_UNIV) auto

lemma case_cls_SomeD: "case_cls cfg t = Inr (Some k) \<Longrightarrow> (t, k) \<in> set (type2case cfg)"
  by (simp add: case_cls_def map_of_SomeD)

lemma case_cls_SomeI: "(t, k) \<in> set (type2case cfg) \<Longrightarrow> case_cls cfg t = Inr (Some k)"
  using type2case_distinct [of cfg] by (simp add: case_cls_def)

lemma case_cls_None_iff: "(case_cls cfg t = Inr None) = (t = CaseType.Custom)"
proof -
  have "(map_of (type2case cfg) t = None) = (t \<notin> set (map fst (type2case cfg)))"
    by (simp add: map_of_eq_None_iff)
  with type2case_dom [of cfg] show ?thesis by (auto simp: case_cls_def)
qed

lemma catalog_case_id: "(t, k) \<in> set (type2case cfg) \<Longrightarrow> case_id (k ()) = t"
  by (auto simp: type2case_items catalog_defs)

lemma catalog_label_timeout:
  "(t, k) \<in> set (type2case cfg) \<Longrightarrow>
   (label (k ()) = Load \<and> optimize_timeout (k ()) = None \<and> filter_rate (k ()) = None)
   \<or> (label (k ()) = Performance \<and> optimize_timeout (k ()) \<noteq> None)"
  by (auto simp: type2case_items catalog_defs)

lemma type2case_constructors_distinct: "distinct (map snd (type2case cfg))"
proof -
  have "map (\<lambda>k. case_id (k ())) (map snd (type2case cfg)) = map fst (type2case cfg)"
    by (simp add: catalog_case_id)
  then have "distinct (map (\<lambda>k. case_id (k ())) (map snd (type2case cfg)))"
    by (simp only: type2case_distinct)
  then have "distinct (map snd (type2case cfg))
      \<and> inj_on (\<lambda>k. case_id (k ())) (set (map snd (type2case cfg)))"
    by (simp only: distinct_map)
  then show ?thesis by (rule conjunct1)
qed

section \<open>The claims\<close>

text \<open>
  C1, as amended. For every case descriptor with a filter rate \<open>r\<close> set and a dataset of
  \<open>N \<ge> 0\<close> records: when the filter is derived, its threshold is
  \<^verbatim>\<open>round(r * N)\<close>, the \<^verbatim>\<open>"metadata"\<close> text means ``the ordinal value is greater than or
  equal to the threshold'', and exactly \<open>N - min N (max T 0)\<close> of the positions
  \<open>0, \<dots>, N - 1\<close> satisfy it, for \<open>T\<close> the threshold. When \<open>r\<close> lies between 0 and 1 and
  \<open>N\<close> is below \<open>2\<^sup>5\<^sup>3\<close>, the derivation succeeds, the threshold lies between 0 and \<open>N\<close>,
  and exactly \<open>N - T\<close> positions satisfy the filter. The rate 0.01 on 1,000,000
  records gives the threshold 10,000, and the rate 0.99 gives 990,000.
\<close>

theorem filters_threshold_count:
  assumes "filter_rate c = Some r" and "size_n (data (dataset c)) = N" and "0 \<le> N"
  shows "(\<forall>f. filters c = Inr (Some f) \<longrightarrow>
            py_round_mul r N = Inr (id_val f)
            \<and> (\<forall>v. satisfies f v = (id_val f \<le> v))
            \<and> count_satisfying f N = N - min N (max (id_val f) 0))
       \<and> (in_unit_interval r \<and> N < 2 ^ 53 \<longrightarrow>
            (\<exists>f. filters c = Inr (Some f) \<and> 0 \<le> id_val f \<and> id_val f \<le> N
                 \<and> count_satisfying f N = N - id_val f))
       \<and> (r = PyFloat (fl64 (1 / 100)) \<and> N = 1000000 \<longrightarrow>
            filters c = Inr (Some \<lparr>metadata = ''>=10000'', id_val = 10000\<rparr>))
       \<and> (r = PyFloat (fl64 (99 / 100)) \<and> N = 1000000 \<longrightarrow>
            filters c = Inr (Some \<lparr>metadata = ''>=990000'', id_val = 990000\<rparr>))"
proof (intro conjI allI impI)
  fix f
  assume f: "filters c = Inr (Some f)"
  from filters_SomeD [OF assms(1) f]
  have T: "py_round_mul r N = Inr (id_val f)" and m: "metadata f = ''>='' @ str_int (id_val f)"
    by (simp_all add: assms(2))
  show "py_round_mul r N = Inr (id_val f)" by (rule T)
  show "satisfies f v = (id_val f \<le> v)" for v using m by (rule satisfies_iff)
  show "count_satisfying f N = N - min N (max (id_val f) 0)"
    using m assms(3) by (rule count_satisfying_eq)
next
  assume "in_unit_interval r \<and> N < 2 ^ 53"
  with py_round_mul_unit [of r N] assms(3)
  obtain T where T: "py_round_mul r N = Inr T" "0 \<le> T" "T \<le> N" by blast
  define f where "f = \<lparr>metadata = ''>='' @ str_int T, id_val = T\<rparr>"
  have "filters c = Inr (Some f)"
    using T(1) by (simp add: filters_rate [OF assms(1)] assms(2) f_def)
  moreover have "count_satisfying f N = N - min N (max T 0)"
    by (rule count_satisfying_eq) (simp_all add: f_def assms(3))
  ultimately show "\<exists>f. filters c = Inr (Some f) \<and> 0 \<le> id_val f \<and> id_val f \<le> N
      \<and> count_satisfying f N = N - id_val f"
    using T(2,3) by (intro exI [of _ f]) (simp add: f_def)
next
  assume "r = PyFloat (fl64 (1 / 100)) \<and> N = 1000000"
  then show "filters c = Inr (Some \<lparr>metadata = ''>=10000'', id_val = 10000\<rparr>)"
    by (simp add: filters_rate [OF assms(1)] assms(2) py_round_mul_0_01_1M
        str_int_def str_nat.simps digit_char_def)
next
  assume "r = PyFloat (fl64 (99 / 100)) \<and> N = 1000000"
  then show "filters c = Inr (Some \<lparr>metadata = ''>=990000'', id_val = 990000\<rparr>)"
    by (simp add: filters_rate [OF assms(1)] assms(2) py_round_mul_0_99_1M
        str_int_def str_nat.simps digit_char_def)
qed

theorem filters_threshold_count_witness:
  "filter_rate (Performance768D1M99P example_config ()) = Some (PyFloat (fl64 (99 / 100)))
   \<and> size_n (data (dataset (Performance768D1M99P example_config ()))) = 1000000
   \<and> (0::int) \<le> 1000000
   \<and> filters (Performance768D1M99P example_config ())
       = Inr (Some \<lparr>metadata = ''>=990000'', id_val = 990000\<rparr>)
   \<and> py_round_mul (PyFloat (fl64 (99 / 100))) 1000000 = Inr 990000
   \<and> satisfies \<lparr>metadata = ''>=990000'', id_val = 990000\<rparr> 990000
   \<and> \<not> satisfies \<lparr>metadata = ''>=990000'', id_val = 990000\<rparr> 989999
   \<and> count_satisfying \<lparr>metadata = ''>=990000'', id_val = 990000\<rparr> 1000000 = 10000"
proof -
  have 1: "filter_rate (Performance768D1M99P example_config ()) = Some (PyFloat (fl64 (99 / 100)))"
    by (simp add: catalog_defs)
  have 2: "size_n (data (dataset (Performance768D1M99P example_config ()))) = 1000000"
    by (simp add: catalog_defs)
  have 3: "(0::int) \<le> 1000000" by simp
  note th = filters_threshold_count [OF 1 2 3]
  from th have f: "filters (Performance768D1M99P example_config ())
      = Inr (Some \<lparr>metadata = ''>=990000'', id_val = 990000\<rparr>)"
    by simp
  with th have "py_round_mul (PyFloat (fl64 (99 / 100))) 1000000 = Inr 990000"
    and "\<forall>v. satisfies \<lparr>metadata = ''>=990000'', id_val = 990000\<rparr> v = (990000 \<le> v)"
    and "count_satisfying \<lparr>metadata = ''>=990000'', id_val = 990000\<rparr> 1000000
      = 1000000 - min 1000000 (max 990000 0)"
    by simp_all
  with 1 2 3 f show ?thesis by simp
qed

text \<open>
  C1 as stated fails. With the rate 2.0 on 10 records the threshold is 20, no position
  among \<open>0, \<dots>, 9\<close> satisfies the filter, and \<open>N - round(r * N)\<close> is \<open>- 10\<close>. With the
  rate 1.0 on \<open>2\<^sup>5\<^sup>3 + 3\<close> records the float product rounds up to \<open>2\<^sup>5\<^sup>3 + 4\<close>, above the
  record count.
\<close>

theorem filters_threshold_count_counterexample:
  "filters (custom_case (PyFloat (Finite 2)) 10) = Inr (Some \<lparr>metadata = ''>=20'', id_val = 20\<rparr>)
   \<and> count_satisfying \<lparr>metadata = ''>=20'', id_val = 20\<rparr> 10 = 0
   \<and> count_satisfying \<lparr>metadata = ''>=20'', id_val = 20\<rparr> 10 \<noteq> 10 - 20
   \<and> filters (custom_case (PyFloat (Finite 1)) 9007199254740995)
       = Inr (Some \<lparr>metadata = ''>=9007199254740996'', id_val = 9007199254740996\<rparr>)
   \<and> count_satisfying \<lparr>metadata = ''>=9007199254740996'', id_val = 9007199254740996\<rparr>
         9007199254740995 = 0
   \<and> count_satisfying \<lparr>metadata = ''>=9007199254740996'', id_val = 9007199254740996\<rparr>
         9007199254740995 \<noteq> 9007199254740995 - 9007199254740996"
proof -
  have s20: "''>=20'' = ''>='' @ str_int 20"
    by (simp add: str_int_def str_nat.simps digit_char_def)
  have sbig: "''>=9007199254740996'' = ''>='' @ str_int 9007199254740996"
    by (simp add: str_int_def str_nat.simps digit_char_def)
  have a: "filters (custom_case (PyFloat (Finite 2)) 10)
      = Inr (Some \<lparr>metadata = ''>=20'', id_val = 20\<rparr>)"
    by (simp add: filters_def custom_case_def manager_def py_round_mul_2_10 s20)
  have "count_satisfying \<lparr>metadata = ''>='' @ str_int 20, id_val = 20\<rparr> 10
      = 10 - min 10 (max 20 0)"
    by (rule count_satisfying_eq) simp_all
  then have "count_satisfying \<lparr>metadata = ''>=20'', id_val = 20\<rparr> 10 = 10 - min 10 (max 20 0)"
    by (simp only: s20 [symmetric])
  then have b: "count_satisfying \<lparr>metadata = ''>=20'', id_val = 20\<rparr> 10 = 0"
    by simp
  have c: "filters (custom_case (PyFloat (Finite 1)) 9007199254740995)
      = Inr (Some \<lparr>metadata = ''>=9007199254740996'', id_val = 9007199254740996\<rparr>)"
    by (simp add: filters_def custom_case_def manager_def py_round_mul_1_2_53_3 sbig)
  have "count_satisfying
      \<lparr>metadata = ''>='' @ str_int 9007199254740996, id_val = 9007199254740996\<rparr>
      9007199254740995 = 9007199254740995 - min 9007199254740995 (max 9007199254740996 0)"
    by (rule count_satisfying_eq) simp_all
  then have "count_satisfying
      \<lparr>metadata = ''>=9007199254740996'', id_val = 9007199254740996\<rparr>
      9007199254740995 = 9007199254740995 - min 9007199254740995 (max 9007199254740996 0)"
    by (simp only: sbig [symmetric])
  then have d: "count_satisfying
      \<lparr>metadata = ''>=9007199254740996'', id_val = 9007199254740996\<rparr>
      9007199254740995 = 0"
    by simp
  from a b c d show ?thesis by simp
qed


text \<open>
  C2, as amended. Resolving an identifier never fails. For \<^verbatim>\<open>Custom\<close>, and for any
  identifier without an entry in the registry, \<^verbatim>\<open>case_cls\<close> returns \<^verbatim>\<open>None\<close>; for a
  registered identifier it returns the constructor registered for it; and every
  identifier other than \<^verbatim>\<open>Custom\<close> is registered.
\<close>

theorem case_cls_lookup:
  "case_cls cfg CaseType.Custom = Inr None
   \<and> (\<forall>t. \<exists>r. case_cls cfg t = Inr r)
   \<and> (\<forall>t k. (t, k) \<in> set (type2case cfg) \<longrightarrow> case_cls cfg t = Inr (Some k))
   \<and> (\<forall>t. t \<notin> fst ` set (type2case cfg) \<longrightarrow> case_cls cfg t = Inr None)
   \<and> (\<forall>t. t \<noteq> CaseType.Custom \<longrightarrow> t \<in> fst ` set (type2case cfg))"
proof (intro conjI allI impI)
  show "case_cls cfg CaseType.Custom = Inr None" by (simp add: case_cls_None_iff)
  show "\<exists>r. case_cls cfg t = Inr r" for t by (simp add: case_cls_def)
  show "case_cls cfg t = Inr (Some k)" if "(t, k) \<in> set (type2case cfg)" for t k
    using that by (rule case_cls_SomeI)
  show "case_cls cfg t = Inr None" if "t \<notin> fst ` set (type2case cfg)" for t
    using that by (simp add: case_cls_def map_of_eq_None_iff)
  show "t \<in> fst ` set (type2case cfg)" if "t \<noteq> CaseType.Custom" for t
    using that type2case_dom [of cfg] by simp
qed

theorem case_cls_lookup_witness:
  "(CaseType.CapacityDim960, CapacityDim960 example_config) \<in> set (type2case example_config)
   \<and> case_cls example_config CaseType.CapacityDim960 = Inr (Some (CapacityDim960 example_config))
   \<and> CaseType.Custom \<notin> fst ` set (type2case example_config)
   \<and> case_cls example_config CaseType.Custom = Inr None
   \<and> CaseType.Performance128D500K10P \<noteq> CaseType.Custom
   \<and> CaseType.Performance128D500K10P \<in> fst ` set (type2case example_config)"
proof -
  have 1: "(CaseType.CapacityDim960, CapacityDim960 example_config)
      \<in> set (type2case example_config)"
    by (simp add: type2case_items)
  have 2: "CaseType.Custom \<notin> fst ` set (type2case example_config)"
    by (simp add: type2case_items)
  have 3: "CaseType.Performance128D500K10P \<noteq> CaseType.Custom" by simp
  from case_cls_lookup [of example_config] 1 2 3 show ?thesis by blast
qed

text \<open>
  C2 as stated fails: resolving \<^verbatim>\<open>Custom\<close> raises nothing, it returns \<^verbatim>\<open>None\<close>.
\<close>

theorem case_cls_lookup_counterexample:
  "case_cls example_config CaseType.Custom = Inr None"
  by (simp add: case_cls_def type2case_items)

text \<open>
  C3, as amended. With a filter rate \<open>r\<close> set, the derivation validates nothing and clamps
  nothing. It never returns \<^verbatim>\<open>None\<close>. On a dataset of zero records it returns the
  threshold 0 for every finite \<open>r\<close>. For an integer \<open>r\<close> it returns the threshold \<open>r * N\<close>,
  and for a finite float \<open>r\<close> whose product with \<open>N\<close> is an integer \<open>z\<close> (both below \<open>2\<^sup>5\<^sup>3\<close> in
  magnitude) it returns the threshold \<open>z\<close>, whether or not \<open>r\<close> lies in (0,1] and whether or
  not \<open>z\<close> lies between 0 and \<open>N\<close>. The only failures are the \<^verbatim>\<open>OverflowError\<close> and
  \<^verbatim>\<open>ValueError\<close> of the float arithmetic.
\<close>

theorem filters_no_validation:
  assumes "filter_rate c = Some r" and "size_n (data (dataset c)) = N"
  shows "filters c \<noteq> Inr None
       \<and> (number_finite r \<and> N = 0 \<longrightarrow>
            filters c = Inr (Some \<lparr>metadata = ''>=0'', id_val = 0\<rparr>))
       \<and> (\<forall>i. r = PyInt i \<longrightarrow>
            filters c = Inr (Some \<lparr>metadata = ''>='' @ str_int (i * N), id_val = i * N\<rparr>))
       \<and> (\<forall>q z. r = PyFloat (Finite q) \<and> q * of_int N = of_int z
                \<and> \<bar>N\<bar> < 2 ^ 53 \<and> \<bar>z\<bar> < 2 ^ 53 \<longrightarrow>
            filters c = Inr (Some \<lparr>metadata = ''>='' @ str_int z, id_val = z\<rparr>))
       \<and> (\<forall>e. filters c = Inl e \<longrightarrow>
            e = OverflowError ''int too large to convert to float''
            \<or> e = OverflowError ''cannot convert float infinity to integer''
            \<or> e = ValueError ''cannot convert float NaN to integer'')"
proof (intro conjI allI impI)
  note fr = filters_rate [OF assms(1), unfolded assms(2)]
  show "filters c \<noteq> Inr None" by (simp add: fr split: sum.splits)
  show "filters c = Inr (Some \<lparr>metadata = ''>=0'', id_val = 0\<rparr>)"
    if "number_finite r \<and> N = 0"
    using that by (simp add: fr py_round_mul_zero str_int_def str_nat.simps digit_char_def)
  show "filters c = Inr (Some \<lparr>metadata = ''>='' @ str_int (i * N), id_val = i * N\<rparr>)"
    if "r = PyInt i" for i
    using that by (simp add: fr py_round_mul_def)
  show "filters c = Inr (Some \<lparr>metadata = ''>='' @ str_int z, id_val = z\<rparr>)"
    if "r = PyFloat (Finite q) \<and> q * of_int N = of_int z \<and> \<bar>N\<bar> < 2 ^ 53 \<and> \<bar>z\<bar> < 2 ^ 53"
    for q z
  proof -
    from that have "py_round_mul r N = Inr z" by (simp add: py_round_mul_exact)
    then show ?thesis by (simp add: fr)
  qed
  show "e = OverflowError ''int too large to convert to float''
      \<or> e = OverflowError ''cannot convert float infinity to integer''
      \<or> e = ValueError ''cannot convert float NaN to integer''"
    if "filters c = Inl e" for e
  proof -
    from that have "py_round_mul r N = Inl e" by (simp add: fr split: sum.splits)
    then show ?thesis by (rule py_round_mul_errors)
  qed
qed

theorem filters_no_validation_witness:
  "filter_rate (custom_case (PyFloat (Finite 2)) 10) = Some (PyFloat (Finite 2))
   \<and> size_n (data (dataset (custom_case (PyFloat (Finite 2)) 10))) = 10
   \<and> (2::rat) * of_int 10 = of_int 20 \<and> \<bar>10::int\<bar> < 2 ^ 53 \<and> \<bar>20::int\<bar> < 2 ^ 53
   \<and> filters (custom_case (PyFloat (Finite 2)) 10)
       = Inr (Some \<lparr>metadata = ''>='' @ str_int 20, id_val = 20\<rparr>)
   \<and> filters (custom_case (PyFloat (Finite 2)) 10) \<noteq> Inr None"
proof -
  have 1: "filter_rate (custom_case (PyFloat (Finite 2)) 10) = Some (PyFloat (Finite 2))"
    by (simp add: custom_case_def)
  have 2: "size_n (data (dataset (custom_case (PyFloat (Finite 2)) 10))) = 10"
    by (simp add: custom_case_def manager_def)
  have 3: "(2::rat) * of_int 10 = of_int 20 \<and> \<bar>10::int\<bar> < 2 ^ 53 \<and> \<bar>20::int\<bar> < 2 ^ 53"
    by simp
  from filters_no_validation [OF 1 2] 3
  have "filters (custom_case (PyFloat (Finite 2)) 10)
      = Inr (Some \<lparr>metadata = ''>='' @ str_int 20, id_val = 20\<rparr>)"
    and "filters (custom_case (PyFloat (Finite 2)) 10) \<noteq> Inr None"
    by blast+
  with 1 2 3 show ?thesis by blast
qed

text \<open>
  C3 as stated fails. The 1% case of the catalog on a dataset that reports zero records
  derives the threshold 0, and a rate of 2.0 on 10 records derives the threshold 20:
  neither fails.
\<close>

theorem filters_no_validation_counterexample:
  "filters ((Performance768D10M1P example_config ())\<lparr>dataset := manager COHERE 0\<rparr>)
     = Inr (Some \<lparr>metadata = ''>=0'', id_val = 0\<rparr>)
   \<and> filters (custom_case (PyFloat (Finite 2)) 10)
     = Inr (Some \<lparr>metadata = ''>=20'', id_val = 20\<rparr>)"
proof -
  have "number_finite (PyFloat (fl64 (1 / 100)))" by (simp add: fl64_0_01)
  then have "py_round_mul (PyFloat (fl64 (1 / 100))) 0 = Inr 0" by (rule py_round_mul_zero)
  then have "filters ((Performance768D10M1P example_config ())\<lparr>dataset := manager COHERE 0\<rparr>)
      = Inr (Some \<lparr>metadata = ''>=0'', id_val = 0\<rparr>)"
    by (simp add: filters_def catalog_defs str_int_def str_nat.simps digit_char_def)
  moreover have "filters (custom_case (PyFloat (Finite 2)) 10)
      = Inr (Some \<lparr>metadata = ''>=20'', id_val = 20\<rparr>)"
    by (simp add: filters_def custom_case_def manager_def py_round_mul_2_10
        str_int_def str_nat.simps digit_char_def)
  ultimately show ?thesis by simp
qed

text \<open>
  C4. For every descriptor of the catalog: if its label is \<^verbatim>\<open>Performance\<close> its optimize
  timeout is present, and if its label is \<^verbatim>\<open>Load\<close> its optimize timeout is absent.
\<close>

theorem catalog_optimize_timeout:
  assumes "case_cls cfg t = Inr (Some k)"
  shows "(label (k ()) = Performance \<longrightarrow> optimize_timeout (k ()) \<noteq> None)
       \<and> (label (k ()) = Load \<longrightarrow> optimize_timeout (k ()) = None)"
  using catalog_label_timeout [OF case_cls_SomeD [OF assms]] by auto

theorem catalog_optimize_timeout_witness:
  "case_cls example_config CaseType.CapacityDim128 = Inr (Some (CapacityDim128 example_config))
   \<and> label (CapacityDim128 example_config ()) = Load
   \<and> optimize_timeout (CapacityDim128 example_config ()) = None
   \<and> case_cls example_config CaseType.Performance768D10M
       = Inr (Some (Performance768D10M example_config))
   \<and> label (Performance768D10M example_config ()) = Performance
   \<and> optimize_timeout (Performance768D10M example_config ()) \<noteq> None"
proof -
  have 1: "case_cls example_config CaseType.CapacityDim128
      = Inr (Some (CapacityDim128 example_config))"
    by (simp add: case_cls_def type2case_items)
  have 2: "label (CapacityDim128 example_config ()) = Load"
    by (simp add: catalog_defs)
  have 3: "case_cls example_config CaseType.Performance768D10M
      = Inr (Some (Performance768D10M example_config))"
    by (simp add: case_cls_def type2case_items)
  have 4: "label (Performance768D10M example_config ()) = Performance"
    by (simp add: catalog_defs)
  from catalog_optimize_timeout [OF 1] catalog_optimize_timeout [OF 3] 1 2 3 4
  show ?thesis by blast
qed

text \<open>
  C5. The registry holds exactly one entry for every identifier other than \<^verbatim>\<open>Custom\<close>
  and none for \<^verbatim>\<open>Custom\<close>; the list of the registered identifiers has no duplicates and
  is as long as there are registered constructors.
\<close>

theorem registry_complete:
  "(\<forall>t. length (filter (\<lambda>kv. fst kv = t) (type2case cfg))
          = (if t = CaseType.Custom then 0 else 1))
   \<and> distinct (map fst (type2case cfg))
   \<and> set (map fst (type2case cfg)) = UNIV - {CaseType.Custom}
   \<and> length (map fst (type2case cfg)) = card (snd ` set (type2case cfg))"
proof (intro conjI allI)
  show "length (filter (\<lambda>kv. fst kv = t) (type2case cfg))
      = (if t = CaseType.Custom then 0 else 1)" for t
    by (cases t) (simp_all add: type2case_items)
  show "distinct (map fst (type2case cfg))" by (rule type2case_distinct)
  show "set (map fst (type2case cfg)) = UNIV - {CaseType.Custom}" by (rule type2case_dom)
  have "card (set (map snd (type2case cfg))) = length (map snd (type2case cfg))"
    using type2case_constructors_distinct by (rule distinct_card)
  then show "length (map fst (type2case cfg)) = card (snd ` set (type2case cfg))"
    by simp
qed

text \<open>
  C6. For every identifier other than \<^verbatim>\<open>Custom\<close>, resolving succeeds, and the descriptor
  that the resolved constructor builds carries the identifier it was resolved from.
\<close>

theorem resolve_round_trip:
  assumes "t \<noteq> CaseType.Custom"
  shows "\<exists>k. case_cls cfg t = Inr (Some k) \<and> case_id (k ()) = t"
proof -
  from assms have "case_cls cfg t \<noteq> Inr None" by (simp add: case_cls_None_iff)
  then obtain k where k: "case_cls cfg t = Inr (Some k)" by (auto simp: case_cls_def)
  then have "(t, k) \<in> set (type2case cfg)" by (rule case_cls_SomeD)
  then have "case_id (k ()) = t" by (rule catalog_case_id)
  with k show ?thesis by blast
qed

theorem resolve_round_trip_witness:
  "CaseType.Performance768D10M1P \<noteq> CaseType.Custom
   \<and> case_cls example_config CaseType.Performance768D10M1P
       = Inr (Some (Performance768D10M1P example_config))
   \<and> case_id (Performance768D10M1P example_config ()) = CaseType.Performance768D10M1P"
proof -
  have 1: "CaseType.Performance768D10M1P \<noteq> CaseType.Custom" by simp
  have 2: "case_cls example_config CaseType.Performance768D10M1P
      = Inr (Some (Performance768D10M1P example_config))"
    by (simp add: case_cls_def type2case_items)
  from resolve_round_trip [OF 1, of example_config] 2
  have "case_id (Performance768D10M1P example_config ()) = CaseType.Performance768D10M1P"
    by auto
  with 1 2 show ?thesis by blast
qed

text \<open>
  C7, as amended. For every identifier that is not supported, which is where
  \<^verbatim>\<open>case_cls\<close> returns \<^verbatim>\<open>None\<close> and which is \<^verbatim>\<open>Custom\<close> only, \<^verbatim>\<open>case_name\<close> and
  \<^verbatim>\<open>case_description\<close> both raise \<^verbatim>\<open>ValueError("Case unsupported")\<close>; for every supported
  identifier they return the name and the description of the descriptor that its
  constructor builds.
\<close>

theorem case_name_description:
  "(case_cls cfg t = Inr None \<longrightarrow>
      case_name cfg t = Inl (ValueError ''Case unsupported'')
      \<and> case_description cfg t = Inl (ValueError ''Case unsupported''))
   \<and> (\<forall>k. case_cls cfg t = Inr (Some k) \<longrightarrow>
      case_name cfg t = Inr (name (k ()))
      \<and> case_description cfg t = Inr (description (k ())))
   \<and> ((case_cls cfg t = Inr None) = (t = CaseType.Custom))"
proof (intro conjI allI impI)
  show "case_name cfg t = Inl (ValueError ''Case unsupported'')"
    and "case_description cfg t = Inl (ValueError ''Case unsupported'')"
    if "case_cls cfg t = Inr None"
    using that by (simp_all add: case_name_def case_description_def)
  show "case_name cfg t = Inr (name (k ()))"
    and "case_description cfg t = Inr (description (k ()))"
    if "case_cls cfg t = Inr (Some k)" for k
    using that by (simp_all add: case_name_def case_description_def)
  show "(case_cls cfg t = Inr None) = (t = CaseType.Custom)"
    by (rule case_cls_None_iff)
qed

theorem case_name_description_witness:
  "case_cls example_config CaseType.Custom = Inr None
   \<and> case_name example_config CaseType.Custom = Inl (ValueError ''Case unsupported'')
   \<and> case_description example_config CaseType.Custom = Inl (ValueError ''Case unsupported'')
   \<and> case_cls example_config CaseType.CapacityDim128
       = Inr (Some (CapacityDim128 example_config))
   \<and> case_name example_config CaseType.CapacityDim128 = Inr ''Capacity Test (128 Dim Repeated)''"
proof -
  have 1: "case_cls example_config CaseType.Custom = Inr None"
    by (simp add: case_cls_def type2case_items)
  have 2: "case_cls example_config CaseType.CapacityDim128
      = Inr (Some (CapacityDim128 example_config))"
    by (simp add: case_cls_def type2case_items)
  have 3: "name (CapacityDim128 example_config ()) = ''Capacity Test (128 Dim Repeated)''"
    by (simp add: catalog_defs)
  from case_name_description [of example_config CaseType.Custom] 1
  have 4: "case_name example_config CaseType.Custom = Inl (ValueError ''Case unsupported'')
      \<and> case_description example_config CaseType.Custom = Inl (ValueError ''Case unsupported'')"
    by blast
  from case_name_description [of example_config CaseType.CapacityDim128] 2
  have "case_name example_config CaseType.CapacityDim128
      = Inr (name (CapacityDim128 example_config ()))"
    by blast
  with 1 2 3 4 show ?thesis by simp
qed

text \<open>
  C7 as stated fails: on \<^verbatim>\<open>Custom\<close> the two accessors raise \<^verbatim>\<open>ValueError\<close>, which is not
  an error of \<^verbatim>\<open>case_cls\<close>, since \<^verbatim>\<open>case_cls\<close> raises nothing there.
\<close>

theorem case_name_description_counterexample:
  "case_cls example_config CaseType.Custom = Inr None
   \<and> case_name example_config CaseType.Custom = Inl (ValueError ''Case unsupported'')
   \<and> case_description example_config CaseType.Custom = Inl (ValueError ''Case unsupported'')"
  by (simp add: case_name_def case_description_def case_cls_def type2case_items)

text \<open>
  C8. For every case descriptor, \<^verbatim>\<open>filters\<close> returns \<^verbatim>\<open>None\<close> exactly when no filter rate
  is set. The catalog entry for the 1% filter on 10,000,000 records yields a filter with
  the threshold 100,000, and every catalog entry labelled \<^verbatim>\<open>Load\<close> yields \<^verbatim>\<open>None\<close> and has
  no optimize timeout.
\<close>

theorem filters_none_iff:
  "((filters c = Inr None) = (filter_rate c = None))
   \<and> case_cls cfg CaseType.Performance768D10M1P = Inr (Some (Performance768D10M1P cfg))
   \<and> size_n (data (dataset (Performance768D10M1P cfg ()))) = 10000000
   \<and> filter_rate (Performance768D10M1P cfg ()) = Some (PyFloat (fl64 (1 / 100)))
   \<and> filters (Performance768D10M1P cfg ()) = Inr (Some \<lparr>metadata = ''>=100000'', id_val = 100000\<rparr>)
   \<and> (\<forall>t k. case_cls cfg t = Inr (Some k) \<and> label (k ()) = Load \<longrightarrow>
        filters (k ()) = Inr None \<and> optimize_timeout (k ()) = None)"
proof (intro conjI allI impI)
  show "(filters c = Inr None) = (filter_rate c = None)"
    by (auto simp: filters_def split: option.splits sum.splits)
  show "case_cls cfg CaseType.Performance768D10M1P = Inr (Some (Performance768D10M1P cfg))"
    by (simp add: case_cls_def type2case_items)
  show "size_n (data (dataset (Performance768D10M1P cfg ()))) = 10000000"
    by (simp add: catalog_defs)
  show "filter_rate (Performance768D10M1P cfg ()) = Some (PyFloat (fl64 (1 / 100)))"
    by (simp add: catalog_defs)
  show "filters (Performance768D10M1P cfg ())
      = Inr (Some \<lparr>metadata = ''>=100000'', id_val = 100000\<rparr>)"
    by (simp add: filters_def catalog_defs py_round_mul_0_01_10M
        str_int_def str_nat.simps digit_char_def)
next
  fix t k
  assume a: "case_cls cfg t = Inr (Some k) \<and> label (k ()) = Load"
  then have "(t, k) \<in> set (type2case cfg)" by (simp add: case_cls_SomeD)
  from catalog_label_timeout [OF this] a
  have "optimize_timeout (k ()) = None" and "filter_rate (k ()) = None" by auto
  then show "filters (k ()) = Inr None" and "optimize_timeout (k ()) = None"
    by (simp_all add: filters_def)
qed

theorem filters_none_iff_witness:
  "case_cls example_config CaseType.CapacityDim960 = Inr (Some (CapacityDim960 example_config))
   \<and> label (CapacityDim960 example_config ()) = Load
   \<and> filters (CapacityDim960 example_config ()) = Inr None
   \<and> optimize_timeout (CapacityDim960 example_config ()) = None
   \<and> filters (Performance768D10M1P example_config ())
       = Inr (Some \<lparr>metadata = ''>=100000'', id_val = 100000\<rparr>)"
proof -
  have 1: "case_cls example_config CaseType.CapacityDim960
      = Inr (Some (CapacityDim960 example_config))"
    by (simp add: case_cls_def type2case_items)
  have 2: "label (CapacityDim960 example_config ()) = Load"
    by (simp add: catalog_defs)
  from filters_none_iff [of "CapacityDim960 example_config ()" example_config] 1 2
  show ?thesis by blast
qed






end
